theory Spec2Isabelle
  imports Complex_Main
begin

section \<open>RavGateway: on-chain payment verification and the mark-paid update\<close>

text \<open>
  The verification core of the repository lives in four TypeScript fragments:
  \<^item> \<^verbatim>\<open>verifyPayment\<close> of docs/BLOCKCHAIN.md (lines 292-345),
  \<^item> \<^verbatim>\<open>verifyPayment\<close> of docs/SECURITY.md (lines 384-421), a shorter sibling of the first,
  \<^item> the update of the \<^verbatim>\<open>invoices\<close> table that marks an invoice paid
    (docs/SECURITY.md, lines 348-351), together with the table's schema and its
    \<^verbatim>\<open>updated_at\<close> trigger (database documentation),
  \<^item> \<^verbatim>\<open>parseAmount\<close> of docs/BLOCKCHAIN.md (lines 228-242).
  Each is embedded below as a HOL function. A thrown exception is a value \<open>Inl e\<close>
  of the sum type \<open>error + 'a\<close>; a returned value is \<open>Inr v\<close>.
\<close>

subsection \<open>JavaScript values\<close>

text \<open>
  Exceptions. \<open>Error msg\<close> is \<^verbatim>\<open>new Error(msg)\<close> thrown by the repository's own code;
  \<open>TypeError\<close> is what reading a property of \<^verbatim>\<open>undefined\<close> throws; \<open>SyntaxError\<close> is
  what \<^verbatim>\<open>BigInt\<close> throws on a string that is no integer literal; \<open>INVALID_ARGUMENT\<close>
  and \<open>NUMERIC_FAULT\<close> are the two error codes of the ethers library that the calls
  below can raise; \<open>RpcError msg\<close> is a rejected RPC request.
\<close>

datatype error =
    Error string
  | TypeError
  | SyntaxError
  | INVALID_ARGUMENT
  | NUMERIC_FAULT
  | RpcError string

text \<open>\<^verbatim>\<open>xs[i]\<close>: \<^verbatim>\<open>undefined\<close> (here \<open>None\<close>) outside the array.\<close>

definition elemAt :: "'a list \<Rightarrow> nat \<Rightarrow> 'a option" where
  "elemAt xs i = (if i < length xs then Some (xs ! i) else None)"

text \<open>
  \<^verbatim>\<open>toLowerCase\<close> and \<^verbatim>\<open>toUpperCase\<close> on the ASCII letters. Every string they meet
  here is compared with a string of hexadecimal digits and \<^verbatim>\<open>x\<close>, and no character
  outside ASCII maps to one of those.
\<close>

definition toLowerChar :: "char \<Rightarrow> char" where
  "toLowerChar c =
     (case map_of (zip ''ABCDEFGHIJKLMNOPQRSTUVWXYZ'' ''abcdefghijklmnopqrstuvwxyz'') c of
        Some d \<Rightarrow> d | None \<Rightarrow> c)"

definition toUpperChar :: "char \<Rightarrow> char" where
  "toUpperChar c =
     (case map_of (zip ''abcdefghijklmnopqrstuvwxyz'' ''ABCDEFGHIJKLMNOPQRSTUVWXYZ'') c of
        Some d \<Rightarrow> d | None \<Rightarrow> c)"

definition toLowerCase :: "string \<Rightarrow> string" where
  "toLowerCase s = map toLowerChar s"

definition isDigit :: "char \<Rightarrow> bool" where
  "isDigit c = (c \<in> set ''0123456789'')"

definition isHexDigit :: "char \<Rightarrow> bool" where
  "isHexDigit c = (c \<in> set ''0123456789abcdefABCDEF'')"

definition isWhiteSpace :: "char \<Rightarrow> bool" where
  "isWhiteSpace c = (c \<in> set [CHR '' '', CHR 0x09, CHR 0x0A, CHR 0x0B, CHR 0x0C, CHR 0x0D])"

definition trim :: "string \<Rightarrow> string" where
  "trim s = rev (dropWhile isWhiteSpace (rev (dropWhile isWhiteSpace s)))"

definition digitValue :: "char \<Rightarrow> nat option" where
  "digitValue c =
     map_of (zip ''0123456789abcdefABCDEF''
       [0, 1, 2, 3, 4, 5, 6, 7, 8, 9, 10, 11, 12, 13, 14, 15, 10, 11, 12, 13, 14, 15]) c"

text \<open>The value of a digit string in a radix; \<open>None\<close> when a character is no digit of it.\<close>

fun parseDigits :: "nat \<Rightarrow> nat \<Rightarrow> string \<Rightarrow> nat option" where
  "parseDigits radix acc [] = Some acc"
| "parseDigits radix acc (c # cs) =
     (case digitValue c of
        None \<Rightarrow> None
      | Some d \<Rightarrow> if d < radix then parseDigits radix (acc * radix + d) cs else None)"

definition parseLiteral :: "nat \<Rightarrow> string \<Rightarrow> error + int" where
  "parseLiteral radix ds =
     (if ds = [] then Inl SyntaxError
      else case parseDigits radix 0 ds of
             None \<Rightarrow> Inl SyntaxError
           | Some n \<Rightarrow> Inr (int n))"

text \<open>
  \<^verbatim>\<open>BigInt(s)\<close> for a string \<open>s\<close> (ECMAScript StringToBigInt): surrounding white space
  is dropped, the empty string is \<open>0\<close>, a prefix \<^verbatim>\<open>0x\<close>, \<^verbatim>\<open>0o\<close> or \<^verbatim>\<open>0b\<close> selects the radix
  (no sign allowed), otherwise an optionally signed decimal; anything else throws
  \<open>SyntaxError\<close>. The result is an unbounded integer.
\<close>

definition BigInt :: "string \<Rightarrow> error + int" where
  "BigInt s =
     (let t = trim s in
      if t = [] then Inr 0
      else if take 2 t = ''0x'' \<or> take 2 t = ''0X'' then parseLiteral 16 (drop 2 t)
      else if take 2 t = ''0o'' \<or> take 2 t = ''0O'' then parseLiteral 8 (drop 2 t)
      else if take 2 t = ''0b'' \<or> take 2 t = ''0B'' then parseLiteral 2 (drop 2 t)
      else if hd t = CHR ''-'' then map_sum id uminus (parseLiteral 10 (tl t))
      else if hd t = CHR ''+'' then parseLiteral 10 (tl t)
      else parseLiteral 10 t)"

text \<open>\<^verbatim>\<open>n.toString()\<close> of a non-negative bigint: its decimal digits.\<close>

definition digitChar :: "nat \<Rightarrow> char" where
  "digitChar d = ''0123456789'' ! d"

fun toDecimal :: "nat \<Rightarrow> string" where
  "toDecimal n = (if n < 10 then [digitChar n] else toDecimal (n div 10) @ [digitChar (n mod 10)])"

declare toDecimal.simps [simp del]

subsection \<open>The invoices table and the update that marks an invoice paid\<close>

text \<open>
  A value of the database type \<^verbatim>\<open>UUID\<close> is 16 bytes. The database reads one from text
  as 32 hexadecimal digits of either case, with an optional hyphen after any group of
  four digits and optional braces around the whole; \<open>None\<close> is its error
  \<^verbatim>\<open>invalid input syntax for type uuid\<close>.
\<close>

type_synonym uuid = "nat list"

function uuid_loop :: "nat \<Rightarrow> string \<Rightarrow> (nat list \<times> string) option" where
  "uuid_loop i src =
     (if 16 \<le> i then Some ([], src)
      else case src of
             a # b # rest \<Rightarrow>
               (case (digitValue a, digitValue b) of
                  (Some x, Some y) \<Rightarrow>
                    map_option (\<lambda>(bytes, r). ((x * 16 + y) # bytes, r))
                      (uuid_loop (i + 1)
                         (if rest \<noteq> [] \<and> hd rest = CHR ''-'' \<and> odd i \<and> i < 15 then tl rest else rest))
                | _ \<Rightarrow> None)
           | _ \<Rightarrow> None)"
  by pat_completeness auto
termination
  by (relation "measure (\<lambda>(i, src). 16 - i)") auto

declare uuid_loop.simps [simp del]

definition uuid_in :: "string \<Rightarrow> uuid option" where
  "uuid_in s =
     (let braces = (s \<noteq> [] \<and> hd s = CHR ''{'')
      in case uuid_loop 0 (if braces then tl s else s) of
           None \<Rightarrow> None
         | Some (bytes, r) \<Rightarrow> if r = (if braces then ''}'' else []) then Some bytes else None)"

text \<open>
  One row of \<^verbatim>\<open>invoices\<close>, column by column as \<^verbatim>\<open>CREATE TABLE invoices\<close> declares it
  (a column without \<^verbatim>\<open>NOT NULL\<close> is an option; the columns \<^verbatim>\<open>id\<close>, \<^verbatim>\<open>amount\<close>,
  \<^verbatim>\<open>status\<close> and \<^verbatim>\<open>network\<close> carry the prefix \<open>invoice_\<close>).
\<close>

type_synonym timestamp = int

record invoice =
  invoice_id :: uuid
  merchant_id :: uuid
  invoice_number :: string
  client_name :: string
  client_email :: string
  invoice_amount :: rat
  invoice_status :: string
  description :: "string option"
  items :: "string option"
  issue_date :: timestamp
  due_date :: timestamp
  paid_at :: "timestamp option"
  tx_hash :: "string option"
  invoice_network :: "string option"
  last_reminded_at :: "timestamp option"
  reminder_count :: "int option"
  created_at :: timestamp
  updated_at :: timestamp

text \<open>
  The trigger \<^verbatim>\<open>update_invoices_updated_at\<close> (\<^verbatim>\<open>BEFORE UPDATE ON invoices FOR EACH ROW\<close>):
  \<^verbatim>\<open>NEW.updated_at = NOW()\<close>.
\<close>

definition update_updated_at_column :: "timestamp \<Rightarrow> invoice \<Rightarrow> invoice" where
  "update_updated_at_column now new = new\<lparr>updated_at := now\<rparr>"

text \<open>
  What the awaited call evaluates to: the rows it returns (\<^verbatim>\<open>data\<close>), the error of the
  database (\<^verbatim>\<open>error\<close>, here its code) and the HTTP status. The client throws nothing.
\<close>

record PostgrestResponse =
  response_data :: "invoice list option"
  response_error :: "string option"
  response_status :: nat

text \<open>
  \<^verbatim>\<open>await supabase.from('invoices').update({ tx_hash: tx.hash, status: 'paid' }).eq('id', invoiceId)\<close>
  run at time \<open>now\<close>, by a caller the database lets update the table. The filter
  compares the column \<^verbatim>\<open>id\<close> with \<open>invoiceId\<close> read as a \<^verbatim>\<open>UUID\<close>: every row with that
  id gets the two columns and then passes the trigger; the other rows, and a table
  without such a row, stay as they are. The statement reads no column first. Without
  \<^verbatim>\<open>.select()\<close> the response carries no row (status 204); a text that is no \<^verbatim>\<open>UUID\<close> gives
  the database's error in the response (code 22P02, status 400) and changes nothing. The
  result is the response, which the code discards, and the table afterwards.
\<close>

definition markPaid ::
  "timestamp \<Rightarrow> invoice list \<Rightarrow> string \<Rightarrow> string \<Rightarrow> PostgrestResponse \<times> invoice list" where
  "markPaid now invoices invoiceId hash =
     (case uuid_in invoiceId of
        None \<Rightarrow>
          (\<lparr>response_data = None, response_error = Some ''22P02'', response_status = 400\<rparr>, invoices)
      | Some u \<Rightarrow>
          (\<lparr>response_data = None, response_error = None, response_status = 204\<rparr>,
           map (\<lambda>row. if invoice_id row = u
                      then update_updated_at_column now
                             (row\<lparr>tx_hash := Some hash, invoice_status := ''paid''\<rparr>)
                      else row)
               invoices))"

subsection \<open>The ethers library, as far as the code calls it\<close>

text \<open>
  The library is not part of the repository. Its hash function Keccak-256 is a
  parameter \<open>K\<close> of the model, from a byte string (a \<open>string\<close>: a \<open>char\<close> is a byte) to
  the bytes of the digest; everything else the calls below do is written out.
\<close>

type_synonym keccak = "string \<Rightarrow> nat list"

definition hexChar :: "nat \<Rightarrow> char" where
  "hexChar d = ''0123456789abcdef'' ! d"

definition hexlify :: "nat list \<Rightarrow> string" where
  "hexlify bytes = ''0x'' @ concat (map (\<lambda>b. [hexChar (b div 16 mod 16), hexChar (b mod 16)]) bytes)"

text \<open>\<^verbatim>\<open>ethers.id(text)\<close>: the digest of the text, as a \<^verbatim>\<open>0x\<close> string.\<close>

definition ethers_id :: "keccak \<Rightarrow> string \<Rightarrow> string" where
  "ethers_id K text = hexlify (K text)"

text \<open>
  The checksum casing of an address: the hexadecimal digit at position \<open>i\<close> becomes upper
  case when nibble \<open>i\<close> of the digest of the lower-case digits is at least 8.
\<close>

fun applyChecksum :: "nat list \<Rightarrow> string \<Rightarrow> string" where
  "applyChecksum (h # hs) (c1 # c2 # cs) =
     (if 8 \<le> h div 16 then toUpperChar c1 else c1)
       # (if 8 \<le> h mod 16 then toUpperChar c2 else c2)
       # applyChecksum hs cs"
| "applyChecksum hs cs = cs"

definition getChecksumAddress :: "keccak \<Rightarrow> string \<Rightarrow> string" where
  "getChecksumAddress K addr =
     (let chars = drop 2 (toLowerCase addr) in ''0x'' @ applyChecksum (K chars) chars)"

definition isMixedCase :: "string \<Rightarrow> bool" where
  "isMixedCase s = (list_ex (\<lambda>c. c \<in> set ''ABCDEF'') s \<and> list_ex (\<lambda>c. c \<in> set ''abcdef'') s)"

text \<open>
  \<^verbatim>\<open>ethers.getAddress('0x' + rest)\<close>, the only way the code calls it: \<open>rest\<close> must be 40
  hexadecimal digits; an argument that mixes upper-case and lower-case digits must carry
  its checksum casing already; the result is the address in checksum casing. (The
  library's other input format starts with \<^verbatim>\<open>XE\<close>, which a string that starts with
  \<^verbatim>\<open>0x\<close> never is.)
\<close>

definition getAddress_0x :: "keccak \<Rightarrow> string \<Rightarrow> error + string" where
  "getAddress_0x K rest =
     (if length rest = 40 \<and> list_all isHexDigit rest then
        let addr = ''0x'' @ rest; result = getChecksumAddress K addr
        in if isMixedCase addr \<and> result \<noteq> addr then Inl INVALID_ARGUMENT else Inr result
      else Inl INVALID_ARGUMENT)"

text \<open>The range of the library's 512-bit signed fixed-point format.\<close>

definition checkValue :: "int \<Rightarrow> error + int" where
  "checkValue val = (if - (2 ^ 511) \<le> val \<and> val < 2 ^ 511 then Inr val else Inl NUMERIC_FAULT)"

text \<open>
  \<^verbatim>\<open>ethers.parseUnits(value, unit)\<close> for a string \<open>value\<close> and a number of decimals \<open>unit\<close>
  (18 when \<open>unit\<close> is \<^verbatim>\<open>undefined\<close>): \<open>value\<close> must match
  \<^verbatim>\<open>/^(-?)([0-9]*)\.?([0-9]*)$/\<close> with a digit somewhere; the fraction is padded with
  zeros to \<open>unit\<close> digits and must have no non-zero digit beyond them; the result is the
  integer written by sign, whole part and padded fraction.
\<close>

definition parseUnits :: "string \<Rightarrow> nat option \<Rightarrow> error + int" where
  "parseUnits val unit =
     (let ndec = (case unit of None \<Rightarrow> 18 | Some d \<Rightarrow> d);
          sign = (if val \<noteq> [] \<and> hd val = CHR ''-'' then ''-'' else []);
          r0 = drop (length sign) val;
          whole = takeWhile isDigit r0;
          r1 = dropWhile isDigit r0;
          frac = (if r1 \<noteq> [] \<and> hd r1 = CHR ''.'' then tl r1 else r1)
      in if 80 < ndec then Inl INVALID_ARGUMENT
         else if \<not> list_all isDigit frac \<or> length whole + length frac = 0 then Inl INVALID_ARGUMENT
         else let padded = frac @ replicate (ndec - length frac) CHR ''0''
              in if \<not> list_all (\<lambda>c. c = CHR ''0'') (drop ndec padded) then Inl NUMERIC_FAULT
                 else case BigInt (sign @ (if whole = [] then ''0'' else whole) @ take ndec padded) of
                        Inl e \<Rightarrow> Inl e
                      | Inr v \<Rightarrow> checkValue v)"

text \<open>
  \<^verbatim>\<open>ethers.formatUnits(value, unit)\<close> for a bigint and a number of decimals: the decimal
  rendering of \<open>value / 10 ^ unit\<close>, with at least one digit on each side of the point and
  no other trailing zero.
\<close>

definition formatUnits :: "int \<Rightarrow> nat \<Rightarrow> error + string" where
  "formatUnits val ndec =
     (if 80 < ndec then Inl INVALID_ARGUMENT
      else case checkValue val of
        Inl e \<Rightarrow> Inl e
      | Inr v \<Rightarrow>
          let negative = (if v < 0 then ''-'' else []);
              str = toDecimal (nat \<bar>v\<bar>)
          in if ndec = 0 then Inr (negative @ str)
             else let padded = replicate (ndec + 1 - length str) CHR ''0'' @ str;
                      index = length padded - ndec;
                      frac = rev (dropWhile (\<lambda>c. c = CHR ''0'') (rev (drop index padded)))
                  in Inr (negative @ take index padded @ ''.'' @ (if frac = [] then ''0'' else frac)))"

subsection \<open>Token decimals and \<^verbatim>\<open>parseAmount\<close>\<close>

definition TOKEN_DECIMALS :: "string \<Rightarrow> nat option" where
  "TOKEN_DECIMALS = map_of [(''USDC'', 6), (''USDT'', 6), (''cUSD'', 18), (''CELO'', 18)]"

text \<open>
  \<^verbatim>\<open>parseAmount(usdAmount, tokenSymbol)\<close>. The function reads its number only through
  \<^verbatim>\<open>usdAmount.toString()\<close>; the model takes that string (\<^verbatim>\<open>"100"\<close> for the number 100).
  A symbol outside the table gives \<^verbatim>\<open>undefined\<close> decimals.
\<close>

definition parseAmount :: "string \<Rightarrow> string \<Rightarrow> error + int" where
  "parseAmount usdAmount_toString tokenSymbol =
     (let ndec = TOKEN_DECIMALS tokenSymbol in parseUnits usdAmount_toString ndec)"

subsection \<open>Network configurations\<close>

record Stablecoin =
  stablecoin_address :: string
  symbol :: string
  decimals :: nat

record NetworkConfig =
  name :: string
  chainId :: string
  rpcUrl :: string
  explorer :: string
  stablecoin :: Stablecoin

definition baseConfig :: NetworkConfig where
  "baseConfig =
     \<lparr>name = ''Base Mainnet'', chainId = ''0x2105'', rpcUrl = ''https://mainnet.base.org'',
      explorer = ''https://basescan.org'',
      stablecoin = \<lparr>stablecoin_address = ''0x833589fCD6eDb6E08f4c7C32D4f71b54bdA02913'',
                    symbol = ''USDC'', decimals = 6\<rparr>\<rparr>"

definition celoConfig :: NetworkConfig where
  "celoConfig =
     \<lparr>name = ''Celo Mainnet'', chainId = ''0xa4ec'', rpcUrl = ''https://forno.celo.org'',
      explorer = ''https://explorer.celo.org'',
      stablecoin = \<lparr>stablecoin_address = ''0x765DE816845861e75A25fCA122bb6898B8B1282a'',
                    symbol = ''cUSD'', decimals = 18\<rparr>\<rparr>"

text \<open>
  Modelled from the spec: the table \<^verbatim>\<open>NETWORKS\<close>, which both \<^verbatim>\<open>verifyPayment\<close> functions
  index and no source file defines. The spec gives it as the static mapping of the
  supported set, \<^verbatim>\<open>base\<close> and \<^verbatim>\<open>celo\<close>, to their configurations; the two configurations
  are the source's.
\<close>

definition NETWORKS :: "string \<Rightarrow> NetworkConfig option" where
  "NETWORKS = map_of [(''base'', baseConfig), (''celo'', celoConfig)]"

subsection \<open>Receipts and the RPC provider\<close>

record Log =
  address :: string
  topics :: "string list"
  data :: string

record TransactionReceipt =
  status :: "int option"
  logs :: "Log list"
  blockNumber :: int

text \<open>
  A provider answers the two requests the code makes: each answer is a value, or
  \<open>Inl msg\<close> when the request is rejected. \<^verbatim>\<open>getTransactionReceipt\<close> answers
  \<^verbatim>\<open>null\<close> (here \<open>None\<close>) for a hash without a receipt.
\<close>

record JsonRpcProvider =
  getTransactionReceipt :: "string \<Rightarrow> string + TransactionReceipt option"
  getBlockNumber :: "string + int"

subsection \<open>\<^verbatim>\<open>verifyPayment\<close> of docs/BLOCKCHAIN.md\<close>

text \<open>
  The object the function returns; \<open>v_amount\<close> is the \<^verbatim>\<open>amount\<close> property, and so on.
\<close>

record Verified =
  verified :: bool
  v_txHash :: string
  v_recipient :: string
  v_amount :: string
  v_blockNumber :: int
  v_confirmations :: int

text \<open>
  \<open>rpc url\<close> is \<^verbatim>\<open>new ethers.JsonRpcProvider(url)\<close>. An unknown network makes
  \<^verbatim>\<open>NETWORKS[network]\<close> \<^verbatim>\<open>undefined\<close>, and reading its \<^verbatim>\<open>rpcUrl\<close> throws.
\<close>

definition verifyPayment ::
  "keccak \<Rightarrow> (string \<Rightarrow> JsonRpcProvider) \<Rightarrow> string \<Rightarrow> string \<Rightarrow> int \<Rightarrow> string \<Rightarrow> error + Verified" where
  "verifyPayment K rpc txHash expectedRecipient expectedAmount network =
     (case NETWORKS network of
        None \<Rightarrow> Inl TypeError
      | Some networkConfig \<Rightarrow>
     let provider = rpc (rpcUrl networkConfig) in
     case getTransactionReceipt provider txHash of
        Inl msg \<Rightarrow> Inl (RpcError msg)
      | Inr None \<Rightarrow> Inl (Error ''Transaction not found'')
      | Inr (Some receipt) \<Rightarrow>
     if status receipt = Some 0 then Inl (Error ''Transaction failed'')
     else
     let transferTopic = ethers_id K ''Transfer(address,address,uint256)'' in
     case find (\<lambda>l. elemAt (topics l) 0 = Some transferTopic) (logs receipt) of
        None \<Rightarrow> Inl (Error ''Transfer event not found'')
      | Some transferLog \<Rightarrow>
     case elemAt (topics transferLog) 2 of
        None \<Rightarrow> Inl TypeError
      | Some topic2 \<Rightarrow>
     case getAddress_0x K (drop 26 topic2) of
        Inl e \<Rightarrow> Inl e
      | Inr recipient \<Rightarrow>
     case BigInt (data transferLog) of
        Inl e \<Rightarrow> Inl e
      | Inr amount \<Rightarrow>
     if toLowerCase recipient \<noteq> toLowerCase expectedRecipient then Inl (Error ''Recipient mismatch'')
     else if amount < expectedAmount then Inl (Error ''Amount mismatch'')
     else
     case formatUnits amount (decimals (stablecoin networkConfig)) of
        Inl e \<Rightarrow> Inl e
      | Inr formatted \<Rightarrow>
     case getBlockNumber provider of
        Inl msg \<Rightarrow> Inl (RpcError msg)
      | Inr current \<Rightarrow>
     Inr \<lparr>verified = True, v_txHash = txHash, v_recipient = recipient, v_amount = formatted,
          v_blockNumber = blockNumber receipt, v_confirmations = current - blockNumber receipt\<rparr>)"

subsection \<open>\<^verbatim>\<open>verifyPayment\<close> of docs/SECURITY.md\<close>

text \<open>
  The same steps, with one guard for a missing and a failed receipt, and \<^verbatim>\<open>true\<close> as the
  result.
\<close>

definition verifyPayment_security ::
  "keccak \<Rightarrow> (string \<Rightarrow> JsonRpcProvider) \<Rightarrow> string \<Rightarrow> string \<Rightarrow> int \<Rightarrow> string \<Rightarrow> error + bool" where
  "verifyPayment_security K rpc txHash expectedRecipient expectedAmount network =
     (case NETWORKS network of
        None \<Rightarrow> Inl TypeError
      | Some networkConfig \<Rightarrow>
     let provider = rpc (rpcUrl networkConfig) in
     case getTransactionReceipt provider txHash of
        Inl msg \<Rightarrow> Inl (RpcError msg)
      | Inr None \<Rightarrow> Inl (Error ''Transaction failed'')
      | Inr (Some receipt) \<Rightarrow>
     if status receipt = Some 0 then Inl (Error ''Transaction failed'')
     else
     case find (\<lambda>l. elemAt (topics l) 0 = Some (ethers_id K ''Transfer(address,address,uint256)''))
               (logs receipt) of
        None \<Rightarrow> Inl (Error ''Transfer event not found'')
      | Some transferLog \<Rightarrow>
     case elemAt (topics transferLog) 2 of
        None \<Rightarrow> Inl TypeError
      | Some topic2 \<Rightarrow>
     case getAddress_0x K (drop 26 topic2) of
        Inl e \<Rightarrow> Inl e
      | Inr recipient \<Rightarrow>
     case BigInt (data transferLog) of
        Inl e \<Rightarrow> Inl e
      | Inr amount \<Rightarrow>
     if toLowerCase recipient \<noteq> toLowerCase expectedRecipient then Inl (Error ''Recipient mismatch'')
     else if amount < expectedAmount then Inl (Error ''Amount mismatch'')
     else Inr True)"

subsection \<open>Vocabulary of the statements\<close>

text \<open>The five messages the two functions throw, under the names the specification uses.\<close>

abbreviation TransactionNotFound :: error where
  "TransactionNotFound \<equiv> Error ''Transaction not found''"

abbreviation TransactionFailed :: error where
  "TransactionFailed \<equiv> Error ''Transaction failed''"

abbreviation TransferEventNotFound :: error where
  "TransferEventNotFound \<equiv> Error ''Transfer event not found''"

abbreviation RecipientMismatch :: error where
  "RecipientMismatch \<equiv> Error ''Recipient mismatch''"

abbreviation AmountMismatch :: error where
  "AmountMismatch \<equiv> Error ''Amount mismatch''"

text \<open>The predicate both functions pass to \<^verbatim>\<open>receipt.logs.find\<close>.\<close>

abbreviation isTransfer :: "keccak \<Rightarrow> Log \<Rightarrow> bool" where
  "isTransfer K l \<equiv> elemAt (topics l) 0 = Some (ethers_id K ''Transfer(address,address,uint256)'')"

text \<open>
  What \<^verbatim>\<open>ethers.JsonRpcProvider\<close> requires of every topic of a log it returns: a 32-byte
  hexadecimal string.
\<close>

definition isHash32 :: "string \<Rightarrow> bool" where
  "isHash32 t = (take 2 t = ''0x'' \<and> length t = 66 \<and> list_all isHexDigit (drop 2 t))"

text \<open>
  \<open>withLogs f rpc\<close> is the chain \<open>rpc\<close> with the log list of every receipt rewritten by
  \<open>f\<close>; all else the providers answer is the same. It states what a verdict does not
  depend on.
\<close>

definition withLogs ::
  "(Log list \<Rightarrow> Log list) \<Rightarrow> (string \<Rightarrow> JsonRpcProvider) \<Rightarrow> string \<Rightarrow> JsonRpcProvider" where
  "withLogs f rpc url =
     (rpc url)\<lparr>getTransactionReceipt :=
        (\<lambda>h. map_sum id (map_option (\<lambda>r. r\<lparr>logs := f (logs r)\<rparr>)) (getTransactionReceipt (rpc url) h))\<rparr>"

subsection \<open>Example data\<close>

text \<open>
  Keccak-256 on the three byte strings the examples hash: the event signature and the
  lower-case digits of two addresses. The digests are the hash function's; the table
  answers nothing else.
\<close>

definition keccak256_known :: keccak where
  "keccak256_known bytes =
     (if bytes = ''Transfer(address,address,uint256)'' then
        [0xDD, 0xF2, 0x52, 0xAD, 0x1B, 0xE2, 0xC8, 0x9B, 0x69, 0xC2, 0xB0, 0x68, 0xFC, 0x37, 0x8D, 0xAA,
         0x95, 0x2B, 0xA7, 0xF1, 0x63, 0xC4, 0xA1, 0x16, 0x28, 0xF5, 0x5A, 0x4D, 0xF5, 0x23, 0xB3, 0xEF]
      else if bytes = ''742d35cc6634c0532925a3b844bc454e4438f44e'' then
        [0x69, 0x36, 0xFD, 0x80, 0x82, 0x68, 0xAD, 0x69, 0x71, 0x6F, 0x2B, 0x43, 0xCE, 0xC3, 0xDD, 0x30,
         0xEB, 0x91, 0x78, 0x33, 0x06, 0x8A, 0xE6, 0x5A, 0x99, 0xB0, 0xE9, 0x02, 0x71, 0x3E, 0xB6, 0xB0]
      else if bytes = ''9e2b8f4a1c3d5e6f7081929394a5b6c7d8e9f0a1'' then
        [0x34, 0x4D, 0x9D, 0xE1, 0x96, 0xAE, 0xB0, 0xF4, 0xFB, 0x32, 0x98, 0x74, 0x10, 0x64, 0x7B, 0xD1,
         0xD5, 0x99, 0x42, 0xFC, 0x4D, 0xF2, 0xF7, 0xED, 0xF9, 0x97, 0x6A, 0xA8, 0xB4, 0xB6, 0x6D, 0x5B]
      else [])"

text \<open>The merchant's wallet, a stranger's wallet, and the hash of the payment.\<close>

definition merchant :: string where
  "merchant = ''0x742d35Cc6634C0532925a3b844Bc454e4438f44e''"

definition stranger :: string where
  "stranger = ''0x9e2B8F4a1c3D5e6f7081929394a5b6C7D8E9f0A1''"

definition payer :: string where
  "payer = ''53d284357ec70ce289d6d64134dfac8e511c8a3d''"

text \<open>A contract that is not the stablecoin of any configured network.\<close>

definition foreign_token :: string where
  "foreign_token = ''0x4200000000000000000000000000000000000042''"

definition payment_tx :: string where
  "payment_tx = ''0x5c504ed432cb51138bcf09aa5e8a410dd4a1e204ef84bfed1be16dfba1b22060''"

text \<open>
  A log as a token contract \<open>emitter\<close> writes it for
  \<^verbatim>\<open>Transfer(sender, receiver, value)\<close>: the signature's digest, the two addresses as
  32-byte topics, the value as data.
\<close>

definition transfer :: "string \<Rightarrow> string \<Rightarrow> string \<Rightarrow> string \<Rightarrow> Log" where
  "transfer emitter sender receiver val =
     \<lparr>address = emitter,
      topics = [''0xddf252ad1be2c89b69c2b068fc378daa952ba7f163c4a11628f55a4df523b3ef'',
                ''0x000000000000000000000000'' @ sender, ''0x000000000000000000000000'' @ receiver],
      data = val\<rparr>"

text \<open>A log that carries the Transfer signature and no other topic.\<close>

definition truncated_transfer :: "string \<Rightarrow> string \<Rightarrow> Log" where
  "truncated_transfer emitter val =
     \<lparr>address = emitter,
      topics = [''0xddf252ad1be2c89b69c2b068fc378daa952ba7f163c4a11628f55a4df523b3ef''],
      data = val\<rparr>"

text \<open>A log of another event, \<^verbatim>\<open>Approval(owner, spender, value)\<close>.\<close>

definition approval :: "string \<Rightarrow> string \<Rightarrow> string \<Rightarrow> string \<Rightarrow> Log" where
  "approval emitter owner spender val =
     \<lparr>address = emitter,
      topics = [''0x8c5be1e5ebec7d5bd14f71427d1e84f3dd0314c0f7b2291e5b200ac8c7c3b925'',
                ''0x000000000000000000000000'' @ owner, ''0x000000000000000000000000'' @ spender],
      data = val\<rparr>"

text \<open>100 USDC (100000000 units) and one unit less, as 32-byte data.\<close>

definition units_100_000_000 :: string where
  "units_100_000_000 = ''0x0000000000000000000000000000000000000000000000000000000005f5e100''"

definition units_99_999_999 :: string where
  "units_99_999_999 = ''0x0000000000000000000000000000000000000000000000000000000005f5e0ff''"


text \<open>
  The digits of the merchant's address with the fourth in upper case: a casing that is
  not the checksum casing of the address.
\<close>

definition miscased_merchant :: string where
  "miscased_merchant = ''742D35cc6634c0532925a3b844bc454e4438f44e''"

definition receipt_of :: "Log list \<Rightarrow> TransactionReceipt" where
  "receipt_of ls = \<lparr>status = Some 1, logs = ls, blockNumber = 25000000\<rparr>"

text \<open>A node at block 25000012 that knows one transaction, \<open>payment_tx\<close>, with receipt \<open>r\<close>.\<close>

definition node :: "TransactionReceipt option \<Rightarrow> string \<Rightarrow> JsonRpcProvider" where
  "node r url =
     \<lparr>getTransactionReceipt = (\<lambda>h. if h = payment_tx then Inr r else Inr None),
      getBlockNumber = Inr 25000012\<rparr>"

text \<open>
  A row as the invoice-creation endpoint inserts it: status \<^verbatim>\<open>sent\<close>, not yet paid. Its
  id is 550e8400-e29b-41d4-a716-446655440000; \<open>invoice_uuid\<close> is how the database prints
  it, \<open>invoice_uuid_upper\<close> another spelling of the same id.
\<close>

definition invoice_uuid :: string where
  "invoice_uuid = ''550e8400-e29b-41d4-a716-446655440000''"

definition invoice_uuid_upper :: string where
  "invoice_uuid_upper = ''550E8400-E29B-41D4-A716-446655440000''"

definition sent_invoice :: invoice where
  "sent_invoice =
     \<lparr>invoice_id = [0x55, 0x0E, 0x84, 0x00, 0xE2, 0x9B, 0x41, 0xD4,
                    0xA7, 0x16, 0x44, 0x66, 0x55, 0x44, 0x00, 0x00],
      merchant_id = [0x7C, 0x9E, 0x66, 0x79, 0x74, 0x25, 0x40, 0xDE,
                     0x94, 0x4B, 0xE0, 0x7F, 0xC1, 0xF9, 0x0A, 0xE7],
      invoice_number = ''INV-1704451234567-ABC123XYZ'', client_name = ''John Doe'',
      client_email = ''john@example.com'', invoice_amount = 100, invoice_status = ''sent'',
      description = None, items = None, issue_date = 1704369600, due_date = 1704974400,
      paid_at = None, tx_hash = None, invoice_network = Some ''base'', last_reminded_at = None,
      reminder_count = Some 0, created_at = 1704369600, updated_at = 1704369600\<rparr>"

text \<open>The same invoice, settled by \<open>payment_tx\<close>.\<close>

definition paid_invoice :: invoice where
  "paid_invoice =
     sent_invoice\<lparr>invoice_status := ''paid'', tx_hash := Some payment_tx,
                  paid_at := Some 1704373200, updated_at := 1704373200\<rparr>"

text \<open>The hash of another transaction.\<close>

definition other_tx :: string where
  "other_tx = ''0x88df016429689c079f3b2f6ad39fa052532c56795b733da78a91ebe6a713944b''"

section \<open>Lemmas\<close>

subsection \<open>Lists\<close>

lemma replicate_numeral_Cons: "replicate (numeral k) x = x # replicate (pred_numeral k) x"
  by (simp add: numeral_eq_Suc)

lemma find_map_same:
  assumes "\<And>x. P (g x) = P x"
  shows "find P (map g xs) = map_option g (find P xs)"
  using assms by (induction xs) simp_all

lemma find_Some_holds: "find P xs = Some x \<Longrightarrow> P x"
  by (induction xs) (auto split: if_splits)

lemma find_append_first:
  "filter P before = [] \<Longrightarrow> P x \<Longrightarrow> find P (before @ x # later) = Some x"
  by (induction before) (auto split: if_splits)

lemma find_None_filter: "(find P xs = None) = (filter P xs = [])"
  by (induction xs) auto

lemma elemAt_update_other: "i \<noteq> j \<Longrightarrow> elemAt (xs[i := v]) j = elemAt xs j"
  by (simp add: elemAt_def)

subsection \<open>Which errors the library calls raise\<close>

lemma getAddress_0x_error: "getAddress_0x K rest = Inl e \<Longrightarrow> e = INVALID_ARGUMENT"
  by (auto simp: getAddress_0x_def Let_def split: if_splits)

lemma parseLiteral_error: "parseLiteral radix ds = Inl e \<Longrightarrow> e = SyntaxError"
  by (auto simp: parseLiteral_def split: if_splits option.splits)

lemma BigInt_error: "BigInt s = Inl e \<Longrightarrow> e = SyntaxError"
  by (auto simp: BigInt_def Let_def map_sum_def split: if_splits sum.splits dest: parseLiteral_error)

lemma formatUnits_error: "formatUnits v d = Inl e \<Longrightarrow> e = INVALID_ARGUMENT \<or> e = NUMERIC_FAULT"
  by (auto simp: formatUnits_def checkValue_def Let_def split: if_splits)

lemma formatUnits_total:
  "d \<le> 80 \<Longrightarrow> - (2 ^ 511) \<le> v \<Longrightarrow> v < 2 ^ 511 \<Longrightarrow> \<exists>s. formatUnits v d = Inr s"
  by (simp add: formatUnits_def checkValue_def Let_def)

lemma NETWORKS_cases: "NETWORKS n = Some cfg \<Longrightarrow> cfg = baseConfig \<or> cfg = celoConfig"
  by (auto simp: NETWORKS_def split: if_splits)

lemma NETWORKS_decimals: "NETWORKS n = Some cfg \<Longrightarrow> decimals (stablecoin cfg) \<le> 80"
  by (auto dest!: NETWORKS_cases simp: baseConfig_def celoConfig_def)

subsection \<open>The two functions after the log is found\<close>

lemma verifyPayment_found:
  assumes "NETWORKS n = Some cfg"
    and "getTransactionReceipt (rpc (rpcUrl cfg)) tx = Inr (Some r)"
    and "status r \<noteq> Some 0"
    and "find (isTransfer K) (logs r) = Some l"
  shows "verifyPayment K rpc tx er ea n =
     (case elemAt (topics l) 2 of
        None \<Rightarrow> Inl TypeError
      | Some topic2 \<Rightarrow>
     case getAddress_0x K (drop 26 topic2) of
        Inl e \<Rightarrow> Inl e
      | Inr recipient \<Rightarrow>
     case BigInt (data l) of
        Inl e \<Rightarrow> Inl e
      | Inr amount \<Rightarrow>
     if toLowerCase recipient \<noteq> toLowerCase er then Inl RecipientMismatch
     else if amount < ea then Inl AmountMismatch
     else
     case formatUnits amount (decimals (stablecoin cfg)) of
        Inl e \<Rightarrow> Inl e
      | Inr formatted \<Rightarrow>
     case getBlockNumber (rpc (rpcUrl cfg)) of
        Inl msg \<Rightarrow> Inl (RpcError msg)
      | Inr current \<Rightarrow>
     Inr \<lparr>verified = True, v_txHash = tx, v_recipient = recipient, v_amount = formatted,
          v_blockNumber = blockNumber r, v_confirmations = current - blockNumber r\<rparr>)"
  using assms by (simp add: verifyPayment_def)

lemma verifyPayment_security_found:
  assumes "NETWORKS n = Some cfg"
    and "getTransactionReceipt (rpc (rpcUrl cfg)) tx = Inr (Some r)"
    and "status r \<noteq> Some 0"
    and "find (isTransfer K) (logs r) = Some l"
  shows "verifyPayment_security K rpc tx er ea n =
     (case elemAt (topics l) 2 of
        None \<Rightarrow> Inl TypeError
      | Some topic2 \<Rightarrow>
     case getAddress_0x K (drop 26 topic2) of
        Inl e \<Rightarrow> Inl e
      | Inr recipient \<Rightarrow>
     case BigInt (data l) of
        Inl e \<Rightarrow> Inl e
      | Inr amount \<Rightarrow>
     if toLowerCase recipient \<noteq> toLowerCase er then Inl RecipientMismatch
     else if amount < ea then Inl AmountMismatch
     else Inr True)"
  using assms by (simp add: verifyPayment_security_def)

lemma verifyPayment_found_kinds:
  assumes "NETWORKS n = Some cfg"
    and "getTransactionReceipt (rpc (rpcUrl cfg)) tx = Inr (Some r)"
    and "status r \<noteq> Some 0"
    and "find (isTransfer K) (logs r) = Some l"
  shows "verifyPayment K rpc tx er ea n \<noteq> Inl TransferEventNotFound"
    and "verifyPayment_security K rpc tx er ea n \<noteq> Inl TransferEventNotFound"
    and "verifyPayment K rpc tx er ea n \<noteq> Inl TransactionNotFound"
    and "verifyPayment K rpc tx er ea n \<noteq> Inl TransactionFailed"
    and "verifyPayment_security K rpc tx er ea n \<noteq> Inl TransactionNotFound"
    and "verifyPayment_security K rpc tx er ea n \<noteq> Inl TransactionFailed"
  unfolding
    verifyPayment_found [where n=n and cfg=cfg and rpc=rpc and tx=tx and r=r and K=K and l=l, OF assms]
    verifyPayment_security_found [where n=n and cfg=cfg and rpc=rpc and tx=tx and r=r and K=K and l=l, OF assms]
  by (auto split: option.splits sum.splits
      dest: getAddress_0x_error BigInt_error formatUnits_error)

subsection \<open>A verdict reads two things of the log it selects\<close>

text \<open>
  When rewriting the logs keeps \<^verbatim>\<open>topics[2]\<close> and \<^verbatim>\<open>data\<close> of the first log that carries the
  Transfer signature (and keeps the absence of such a log), the result is the same.
\<close>

lemma verifyPayment_withLogs:
  assumes "\<And>ls. map_option (\<lambda>l. (elemAt (topics l) 2, data l)) (find (isTransfer K) (f ls))
               = map_option (\<lambda>l. (elemAt (topics l) 2, data l)) (find (isTransfer K) ls)"
  shows "verifyPayment K (withLogs f rpc) tx er ea n = verifyPayment K rpc tx er ea n"
proof (cases "NETWORKS n")
  case None
  then show ?thesis by (simp add: verifyPayment_def)
next
  case (Some cfg)
  show ?thesis
  proof (cases "getTransactionReceipt (rpc (rpcUrl cfg)) tx")
    case (Inl msg)
    with Some show ?thesis by (simp add: verifyPayment_def withLogs_def)
  next
    case (Inr ro)
    show ?thesis
    proof (cases ro)
      case None
      with Some Inr show ?thesis by (simp add: verifyPayment_def withLogs_def)
    next
      case (Some r)
      note v = assms [of "logs r"]
      show ?thesis
      proof (cases "find (isTransfer K) (logs r)")
        case None
        with v have "find (isTransfer K) (f (logs r)) = None" by simp
        with None \<open>NETWORKS n = Some cfg\<close> Inr Some show ?thesis
          by (simp add: verifyPayment_def withLogs_def)
      next
        case (Some l)
        with v obtain l' where l': "find (isTransfer K) (f (logs r)) = Some l'"
          "elemAt (topics l') 2 = elemAt (topics l) 2" "data l' = data l"
          by (cases "find (isTransfer K) (f (logs r))") auto
        with Some \<open>NETWORKS n = Some cfg\<close> Inr \<open>ro = Some r\<close> show ?thesis
          by (simp add: verifyPayment_def withLogs_def cong: option.case_cong sum.case_cong if_cong)
      qed
    qed
  qed
qed

lemma verifyPayment_security_withLogs:
  assumes "\<And>ls. map_option (\<lambda>l. (elemAt (topics l) 2, data l)) (find (isTransfer K) (f ls))
               = map_option (\<lambda>l. (elemAt (topics l) 2, data l)) (find (isTransfer K) ls)"
  shows "verifyPayment_security K (withLogs f rpc) tx er ea n = verifyPayment_security K rpc tx er ea n"
proof (cases "NETWORKS n")
  case None
  then show ?thesis by (simp add: verifyPayment_security_def)
next
  case (Some cfg)
  show ?thesis
  proof (cases "getTransactionReceipt (rpc (rpcUrl cfg)) tx")
    case (Inl msg)
    with Some show ?thesis by (simp add: verifyPayment_security_def withLogs_def)
  next
    case (Inr ro)
    show ?thesis
    proof (cases ro)
      case None
      with Some Inr show ?thesis by (simp add: verifyPayment_security_def withLogs_def)
    next
      case (Some r)
      note v = assms [of "logs r"]
      show ?thesis
      proof (cases "find (isTransfer K) (logs r)")
        case None
        with v have "find (isTransfer K) (f (logs r)) = None" by simp
        with None \<open>NETWORKS n = Some cfg\<close> Inr Some show ?thesis
          by (simp add: verifyPayment_security_def withLogs_def)
      next
        case (Some l)
        with v obtain l' where l': "find (isTransfer K) (f (logs r)) = Some l'"
          "elemAt (topics l') 2 = elemAt (topics l) 2" "data l' = data l"
          by (cases "find (isTransfer K) (f (logs r))") auto
        with Some \<open>NETWORKS n = Some cfg\<close> Inr \<open>ro = Some r\<close> show ?thesis
          by (simp add: verifyPayment_security_def withLogs_def
              cong: option.case_cong sum.case_cong if_cong)
      qed
    qed
  qed
qed

lemma view_address:
  "map_option (\<lambda>l. (elemAt (topics l) 2, data l))
       (find (isTransfer K) (map (\<lambda>l. l\<lparr>address := emitter l\<rparr>) ls))
     = map_option (\<lambda>l. (elemAt (topics l) 2, data l)) (find (isTransfer K) ls)"
  by (simp add: find_map_same option.map_comp comp_def)

lemma view_sender:
  "map_option (\<lambda>l. (elemAt (topics l) 2, data l))
       (find (isTransfer K) (map (\<lambda>l. l\<lparr>topics := (topics l)[1 := sender l]\<rparr>) ls))
     = map_option (\<lambda>l. (elemAt (topics l) 2, data l)) (find (isTransfer K) ls)"
  by (simp add: find_map_same option.map_comp comp_def elemAt_update_other)

lemma view_first:
  "map_option (\<lambda>l. (elemAt (topics l) 2, data l))
       (find (isTransfer K) (case find (isTransfer K) ls of None \<Rightarrow> [] | Some l \<Rightarrow> l # others ls))
     = map_option (\<lambda>l. (elemAt (topics l) 2, data l)) (find (isTransfer K) ls)"
  by (cases "find (isTransfer K) ls") (auto dest: find_Some_holds)

subsection \<open>The example data, evaluated\<close>

lemma topic_known:
  "ethers_id keccak256_known ''Transfer(address,address,uint256)''
     = ''0xddf252ad1be2c89b69c2b068fc378daa952ba7f163c4a11628f55a4df523b3ef''"
  by (simp add: ethers_id_def keccak256_known_def hexlify_def hexChar_def)

lemma merchant_known:
  "getAddress_0x keccak256_known ''742d35cc6634c0532925a3b844bc454e4438f44e''
     = Inr ''0x742d35Cc6634C0532925a3b844Bc454e4438f44e''"
  by (simp add: getAddress_0x_def getChecksumAddress_def keccak256_known_def isHexDigit_def
      isMixedCase_def toLowerCase_def toLowerChar_def toUpperChar_def)

lemma stranger_known:
  "getAddress_0x keccak256_known ''9e2b8f4a1c3d5e6f7081929394a5b6c7d8e9f0a1''
     = Inr ''0x9e2B8F4a1c3D5e6f7081929394a5b6C7D8E9f0A1''"
  by (simp add: getAddress_0x_def getChecksumAddress_def keccak256_known_def isHexDigit_def
      isMixedCase_def toLowerCase_def toLowerChar_def toUpperChar_def)

lemma BigInt_units:
  "BigInt units_100_000_000 = Inr 100000000"
  "BigInt units_99_999_999 = Inr 99999999"
  by (simp_all add: units_100_000_000_def units_99_999_999_def BigInt_def trim_def isWhiteSpace_def
      parseLiteral_def digitValue_def)

lemma formatUnits_100: "formatUnits 100000000 6 = Inr ''100.0''"
  by (simp add: formatUnits_def checkValue_def toDecimal.simps digitChar_def)

lemmas example_defs =
  NETWORKS_def baseConfig_def node_def receipt_of_def transfer_def elemAt_def
  payment_tx_def merchant_def stranger_def toLowerCase_def toLowerChar_def

lemma example_accepted:
  "verifyPayment keccak256_known
       (node (Some (receipt_of [transfer emitter sender ''742d35cc6634c0532925a3b844bc454e4438f44e''
                                  units_100_000_000])))
       payment_tx merchant 100000000 ''base''
     = Inr \<lparr>verified = True, v_txHash = payment_tx, v_recipient = merchant, v_amount = ''100.0'',
            v_blockNumber = 25000000, v_confirmations = 12\<rparr>"
  "verifyPayment_security keccak256_known
       (node (Some (receipt_of [transfer emitter sender ''742d35cc6634c0532925a3b844bc454e4438f44e''
                                  units_100_000_000])))
       payment_tx merchant 100000000 ''base''
     = Inr True"
  by (simp_all add: verifyPayment_def verifyPayment_security_def example_defs topic_known
      merchant_known BigInt_units formatUnits_100)

lemma example_no_transfer:
  "verifyPayment keccak256_known (node (Some (receipt_of [approval emitter owner spender val])))
       payment_tx merchant 100000000 ''base'' = Inl TransferEventNotFound"
  "verifyPayment_security keccak256_known (node (Some (receipt_of [approval emitter owner spender val])))
       payment_tx merchant 100000000 ''base'' = Inl TransferEventNotFound"
  by (simp_all add: verifyPayment_def verifyPayment_security_def example_defs approval_def topic_known)

lemma example_hyps:
  "NETWORKS ''base'' = Some baseConfig"
  "getTransactionReceipt (node r (rpcUrl baseConfig)) payment_tx = Inr r"
  "getBlockNumber (node r (rpcUrl baseConfig)) = Inr 25000012"
  "status (receipt_of ls) \<noteq> Some 0"
  "logs (receipt_of ls) = ls"
  "blockNumber (receipt_of ls) = 25000000"
  "isTransfer keccak256_known (transfer emitter sender receiver val)"
  "\<not> isTransfer keccak256_known (approval emitter sender receiver val)"
  "elemAt (topics (transfer emitter sender receiver val)) 2 = Some (''0x000000000000000000000000'' @ receiver)"
  "data (transfer emitter sender receiver val) = val"
  "drop 26 (''0x000000000000000000000000'' @ receiver) = receiver"
  "decimals (stablecoin baseConfig) = 6"
  "isTransfer keccak256_known (truncated_transfer emitter val)"
  "length (topics (truncated_transfer emitter val)) = 1"
  by (simp_all add: NETWORKS_def node_def receipt_of_def transfer_def approval_def elemAt_def
      topic_known baseConfig_def truncated_transfer_def)

lemma verifyPayment_receipt_errors:
  assumes "NETWORKS network = Some cfg"
  shows "(verifyPayment K rpc txHash expectedRecipient expectedAmount network = Inl TransactionNotFound)
           = (getTransactionReceipt (rpc (rpcUrl cfg)) txHash = Inr None)"
    and "(verifyPayment K rpc txHash expectedRecipient expectedAmount network = Inl TransactionFailed)
           = (\<exists>receipt. getTransactionReceipt (rpc (rpcUrl cfg)) txHash = Inr (Some receipt)
                \<and> status receipt = Some 0)"
    and "(verifyPayment_security K rpc txHash expectedRecipient expectedAmount network
            = Inl TransactionFailed)
           = (getTransactionReceipt (rpc (rpcUrl cfg)) txHash = Inr None
              \<or> (\<exists>receipt. getTransactionReceipt (rpc (rpcUrl cfg)) txHash = Inr (Some receipt)
                    \<and> status receipt = Some 0))"
    and "verifyPayment_security K rpc txHash expectedRecipient expectedAmount network
            \<noteq> Inl TransactionNotFound"
proof -
  have "((verifyPayment K rpc txHash expectedRecipient expectedAmount network = Inl TransactionNotFound)
           = (getTransactionReceipt (rpc (rpcUrl cfg)) txHash = Inr None))
    \<and> ((verifyPayment K rpc txHash expectedRecipient expectedAmount network = Inl TransactionFailed)
           = (\<exists>receipt. getTransactionReceipt (rpc (rpcUrl cfg)) txHash = Inr (Some receipt)
                \<and> status receipt = Some 0))
    \<and> ((verifyPayment_security K rpc txHash expectedRecipient expectedAmount network
            = Inl TransactionFailed)
           = (getTransactionReceipt (rpc (rpcUrl cfg)) txHash = Inr None
              \<or> (\<exists>receipt. getTransactionReceipt (rpc (rpcUrl cfg)) txHash = Inr (Some receipt)
                    \<and> status receipt = Some 0)))
    \<and> verifyPayment_security K rpc txHash expectedRecipient expectedAmount network
            \<noteq> Inl TransactionNotFound"
  proof (cases "getTransactionReceipt (rpc (rpcUrl cfg)) txHash")
    case (Inl msg)
    with assms show ?thesis by (simp add: verifyPayment_def verifyPayment_security_def)
  next
    case (Inr answer)
    show ?thesis
    proof (cases answer)
      case None
      with Inr assms show ?thesis by (simp add: verifyPayment_def verifyPayment_security_def)
    next
      case (Some r)
      show ?thesis
      proof (cases "status r = Some 0")
        case True
        with Inr Some assms show ?thesis
          by (simp add: verifyPayment_def verifyPayment_security_def)
      next
        case False
        show ?thesis
        proof (cases "find (isTransfer K) (logs r)")
          case None
          with False Inr Some assms show ?thesis
            by (simp add: verifyPayment_def verifyPayment_security_def)
        next
          case (Some l)
          from Inr \<open>answer = Some r\<close>
          have r: "getTransactionReceipt (rpc (rpcUrl cfg)) txHash = Inr (Some r)" by simp
          note k = verifyPayment_found_kinds [where n=network and cfg=cfg and rpc=rpc and tx=txHash
              and r=r and K=K and l=l and er=expectedRecipient and ea=expectedAmount,
              OF assms r False Some]
          from r False k show ?thesis by simp
        qed
      qed
    qed
  qed
  then show "(verifyPayment K rpc txHash expectedRecipient expectedAmount network = Inl TransactionNotFound)
           = (getTransactionReceipt (rpc (rpcUrl cfg)) txHash = Inr None)"
    and "(verifyPayment K rpc txHash expectedRecipient expectedAmount network = Inl TransactionFailed)
           = (\<exists>receipt. getTransactionReceipt (rpc (rpcUrl cfg)) txHash = Inr (Some receipt)
                \<and> status receipt = Some 0)"
    and "(verifyPayment_security K rpc txHash expectedRecipient expectedAmount network
            = Inl TransactionFailed)
           = (getTransactionReceipt (rpc (rpcUrl cfg)) txHash = Inr None
              \<or> (\<exists>receipt. getTransactionReceipt (rpc (rpcUrl cfg)) txHash = Inr (Some receipt)
                    \<and> status receipt = Some 0))"
    and "verifyPayment_security K rpc txHash expectedRecipient expectedAmount network
            \<noteq> Inl TransactionNotFound"
    by blast+
qed

subsection \<open>Decimal strings\<close>

lemma digitValue_zero: "digitValue CHR ''0'' = Some 0"
  by (simp add: digitValue_def)

lemma digitValue_isDigit: "digitValue c = Some d \<Longrightarrow> d < 10 \<Longrightarrow> isDigit c"
  by (auto simp: digitValue_def isDigit_def split: if_splits)

lemma isDigit_chars:
  "isDigit c \<Longrightarrow> \<not> isWhiteSpace c \<and> c \<noteq> CHR ''-'' \<and> c \<noteq> CHR ''+'' \<and> c \<noteq> CHR ''.''
     \<and> c \<noteq> CHR ''x'' \<and> c \<noteq> CHR ''X'' \<and> c \<noteq> CHR ''o'' \<and> c \<noteq> CHR ''O'' \<and> c \<noteq> CHR ''b''
     \<and> c \<noteq> CHR ''B''"
  by (auto simp: isDigit_def isWhiteSpace_def)

lemma parseDigits_acc:
  "parseDigits radix acc xs = map_option (\<lambda>n. acc * radix ^ length xs + n) (parseDigits radix 0 xs)"
proof (induction xs arbitrary: acc)
  case Nil
  then show ?case by simp
next
  case (Cons c cs)
  show ?case
  proof (cases "digitValue c")
    case None
    then show ?thesis by simp
  next
    case (Some d)
    show ?thesis
    proof (cases "d < radix")
      case True
      have "parseDigits radix (acc * radix + d) cs
          = map_option (\<lambda>n. (acc * radix + d) * radix ^ length cs + n) (parseDigits radix 0 cs)"
        by (rule Cons.IH)
      moreover have "parseDigits radix d cs
          = map_option (\<lambda>n. d * radix ^ length cs + n) (parseDigits radix 0 cs)"
        by (rule Cons.IH)
      ultimately show ?thesis using Some True
        by (simp add: option.map_comp comp_def algebra_simps)
    next
      case False
      with Some show ?thesis by simp
    qed
  qed
qed

lemma parseDigits_append:
  "parseDigits radix acc (xs @ ys)
     = (case parseDigits radix acc xs of None \<Rightarrow> None | Some a \<Rightarrow> parseDigits radix a ys)"
  by (induction xs arbitrary: acc) (simp_all split: option.splits)

lemma parseDigits_zeros: "parseDigits 10 acc (replicate k CHR ''0'') = Some (acc * 10 ^ k)"
  by (induction k arbitrary: acc) (simp_all add: digitValue_zero)

lemma parseDigits_all_digits: "parseDigits 10 acc xs = Some n \<Longrightarrow> list_all isDigit xs"
  by (induction xs arbitrary: acc) (auto split: option.splits if_splits dest: digitValue_isDigit)

lemma trim_digits:
  assumes "list_all isDigit ds"
  shows "trim ds = ds"
proof (cases ds rule: rev_cases)
  case Nil
  then show ?thesis by (simp add: trim_def)
next
  case (snoc ys y)
  with assms have "\<not> isWhiteSpace y" by (simp add: isDigit_chars)
  moreover from assms have "dropWhile isWhiteSpace ds = ds"
    by (cases ds) (simp_all add: isDigit_chars)
  ultimately show ?thesis using snoc by (simp add: trim_def)
qed

lemma BigInt_digits:
  assumes "list_all isDigit ds" and "ds \<noteq> []"
  shows "BigInt ds = parseLiteral 10 ds"
proof -
  from assms obtain c cs where ds: "ds = c # cs" by (cases ds) auto
  with assms have c: "isDigit c" by simp
  have two: "take 2 ds \<noteq> [CHR ''0'', x]"
    if "x \<in> {CHR ''x'', CHR ''X'', CHR ''o'', CHR ''O'', CHR ''b'', CHR ''B''}" for x
  proof
    assume "take 2 ds = [CHR ''0'', x]"
    then have "x \<in> set (take 2 ds)" by simp
    then have "x \<in> set ds" by (rule in_set_takeD)
    with assms have "isDigit x" by (simp add: list_all_iff)
    with that show False by (auto dest: isDigit_chars)
  qed
  from c have "hd ds \<noteq> CHR ''-''" "hd ds \<noteq> CHR ''+''" by (auto simp: ds dest: isDigit_chars)
  with two assms show ?thesis
    by (simp add: BigInt_def trim_digits Let_def)
qed

lemma TOKEN_DECIMALS_bound: "TOKEN_DECIMALS s = Some d \<Longrightarrow> d \<le> 80"
  by (auto simp: TOKEN_DECIMALS_def split: if_splits)

lemma parseUnits_decimal:
  assumes "whole \<noteq> []"
    and w: "parseDigits 10 0 whole = Some w"
    and f: "parseDigits 10 0 fraction = Some f"
    and d: "length fraction \<le> d" "d \<le> 80"
    and range: "int w * 10 ^ d + int f * 10 ^ (d - length fraction) < 2 ^ 511"
  shows "parseUnits (whole @ ''.'' @ fraction) (Some d)
           = Inr (int w * 10 ^ d + int f * 10 ^ (d - length fraction))"
    and "fraction = [] \<Longrightarrow> parseUnits whole (Some d) = Inr (int w * 10 ^ d)"
proof -
  from w have dw: "list_all isDigit whole" by (rule parseDigits_all_digits)
  from f have df: "list_all isDigit fraction" by (rule parseDigits_all_digits)
  let ?zeros = "replicate (d - length fraction) CHR ''0''"
  have dz: "list_all isDigit ?zeros" by (simp add: list_all_iff isDigit_def)
  from \<open>whole \<noteq> []\<close> dw have hd: "hd whole \<noteq> CHR ''-''"
    by (cases whole) (auto dest: isDigit_chars)
  have tw: "takeWhile isDigit (whole @ CHR ''.'' # fraction) = whole"
    "dropWhile isDigit (whole @ CHR ''.'' # fraction) = CHR ''.'' # fraction"
    using dw by (auto simp: list_all_iff takeWhile_append2 dropWhile_append2 isDigit_def)
  have tw': "takeWhile isDigit whole = whole" "dropWhile isDigit whole = []"
    using dw by (auto simp: list_all_iff)
  have digits_value: "parseDigits 10 0 (whole @ fraction @ ?zeros)
      = Some (w * 10 ^ d + f * 10 ^ (d - length fraction))"
  proof -
    have "parseDigits 10 0 (whole @ fraction @ ?zeros)
        = Some ((w * 10 ^ length fraction + f) * 10 ^ (d - length fraction))"
      using w f by (simp add: parseDigits_append parseDigits_zeros parseDigits_acc [of 10 w fraction])
    also have "(w * 10 ^ length fraction + f) * 10 ^ (d - length fraction)
        = w * (10 ^ length fraction * 10 ^ (d - length fraction)) + f * 10 ^ (d - length fraction)"
      by (simp add: algebra_simps)
    also have "(10::nat) ^ length fraction * 10 ^ (d - length fraction) = 10 ^ d"
      using d(1) by (simp add: power_add [symmetric])
    finally show ?thesis .
  qed
  have big: "BigInt (whole @ fraction @ ?zeros)
      = Inr (int w * 10 ^ d + int f * 10 ^ (d - length fraction))"
    using dw df dz \<open>whole \<noteq> []\<close> digits_value
    by (simp add: BigInt_digits parseLiteral_def)
  have lo: "- (2 ^ 511) \<le> int w * 10 ^ d + int f * 10 ^ (d - length fraction)"
  proof -
    have "(0::int) \<le> int w * 10 ^ d + int f * 10 ^ (d - length fraction)" by simp
    moreover have "- (2 ^ 511) \<le> (0::int)" by simp
    ultimately show ?thesis by (rule order_trans [rotated])
  qed
  show "parseUnits (whole @ ''.'' @ fraction) (Some d)
           = Inr (int w * 10 ^ d + int f * 10 ^ (d - length fraction))"
    using \<open>whole \<noteq> []\<close> hd tw df d big range lo
    by (simp add: parseUnits_def Let_def checkValue_def)
  show "parseUnits whole (Some d) = Inr (int w * 10 ^ d)" if "fraction = []"
  proof -
    from that f have "f = 0" by simp
    with that big range lo have "BigInt (whole @ replicate d CHR ''0'') = Inr (int w * 10 ^ d)"
      "int w * 10 ^ d < 2 ^ 511" "- (2 ^ 511) \<le> int w * 10 ^ d"
      by simp_all
    with \<open>whole \<noteq> []\<close> hd d(2) show ?thesis
      by (simp add: parseUnits_def Let_def checkValue_def tw')
  qed
qed

subsection \<open>The update, and the example invoice\<close>

lemma uuid_in_examples:
  "uuid_in invoice_uuid = Some (invoice_id sent_invoice)"
  "uuid_in invoice_uuid_upper = Some (invoice_id sent_invoice)"
  "invoice_id paid_invoice = invoice_id sent_invoice"
  by (simp_all add: uuid_in_def uuid_loop.simps digitValue_def invoice_uuid_def
      invoice_uuid_upper_def sent_invoice_def paid_invoice_def)

lemma markPaid_Some:
  "uuid_in invoiceId = Some u \<Longrightarrow>
   markPaid now invoices invoiceId hash =
     (\<lparr>response_data = None, response_error = None, response_status = 204\<rparr>,
      map (\<lambda>row. if invoice_id row = u
                 then row\<lparr>tx_hash := Some hash, invoice_status := ''paid'', updated_at := now\<rparr>
                 else row) invoices)"
  by (simp add: markPaid_def update_updated_at_column_def)

subsection \<open>The amount check\<close>

text \<open>
  Once the first log with the Transfer signature decodes to the expected recipient, each
  function fails with AmountMismatch if and only if the decoded amount is strictly less
  than the expected one. An equal or larger amount makes the function of docs/SECURITY.md
  return \<^verbatim>\<open>true\<close>, and the function of docs/BLOCKCHAIN.md return its result object when
  the amount is one a \<^verbatim>\<open>uint256\<close> can hold and the node answers the block number. On the
  example, 100000000 units pass and 99999999 fail.
\<close>

lemma verifyPayment_amount_check:
  assumes "NETWORKS network = Some cfg"
    and "getTransactionReceipt (rpc (rpcUrl cfg)) txHash = Inr (Some receipt)"
    and "status receipt \<noteq> Some 0"
    and "find (isTransfer K) (logs receipt) = Some transferLog"
    and "elemAt (topics transferLog) 2 = Some toTopic"
    and "getAddress_0x K (drop 26 toTopic) = Inr recipient"
    and "toLowerCase recipient = toLowerCase expectedRecipient"
    and "BigInt (data transferLog) = Inr amount"
  shows "((verifyPayment K rpc txHash expectedRecipient expectedAmount network = Inl AmountMismatch)
            = (amount < expectedAmount))
       \<and> ((verifyPayment_security K rpc txHash expectedRecipient expectedAmount network
              = Inl AmountMismatch)
            = (amount < expectedAmount))
       \<and> (expectedAmount \<le> amount
            \<longrightarrow> verifyPayment_security K rpc txHash expectedRecipient expectedAmount network = Inr True)
       \<and> (expectedAmount \<le> amount \<and> 0 \<le> amount \<and> amount < 2 ^ 256
            \<and> getBlockNumber (rpc (rpcUrl cfg)) = Inr current
            \<longrightarrow> (\<exists>formatted. formatUnits amount (decimals (stablecoin cfg)) = Inr formatted
                  \<and> verifyPayment K rpc txHash expectedRecipient expectedAmount network
                      = Inr \<lparr>verified = True, v_txHash = txHash, v_recipient = recipient,
                             v_amount = formatted, v_blockNumber = blockNumber receipt,
                             v_confirmations = current - blockNumber receipt\<rparr>))"
proof -
  note found = assms(1-4)
  have v: "verifyPayment K rpc txHash expectedRecipient expectedAmount network =
      (if amount < expectedAmount then Inl AmountMismatch
       else case formatUnits amount (decimals (stablecoin cfg)) of
              Inl e \<Rightarrow> Inl e
            | Inr formatted \<Rightarrow>
                (case getBlockNumber (rpc (rpcUrl cfg)) of
                   Inl msg \<Rightarrow> Inl (RpcError msg)
                 | Inr current \<Rightarrow>
                     Inr \<lparr>verified = True, v_txHash = txHash, v_recipient = recipient,
                          v_amount = formatted, v_blockNumber = blockNumber receipt,
                          v_confirmations = current - blockNumber receipt\<rparr>))"
    using assms(5-8)
    by (simp add: verifyPayment_found [where n=network and cfg=cfg and rpc=rpc and tx=txHash and r=receipt and K=K
          and l=transferLog, OF found])
  have s: "verifyPayment_security K rpc txHash expectedRecipient expectedAmount network =
      (if amount < expectedAmount then Inl AmountMismatch else Inr True)"
    using assms(5-8)
    by (simp add: verifyPayment_security_found [where n=network and cfg=cfg and rpc=rpc and tx=txHash and r=receipt
          and K=K and l=transferLog, OF found])
  have "(verifyPayment K rpc txHash expectedRecipient expectedAmount network = Inl AmountMismatch)
            = (amount < expectedAmount)"
    unfolding v by (auto split: sum.splits dest: formatUnits_error)
  moreover have "(verifyPayment_security K rpc txHash expectedRecipient expectedAmount network
              = Inl AmountMismatch) = (amount < expectedAmount)"
    unfolding s by simp
  moreover have "expectedAmount \<le> amount
      \<longrightarrow> verifyPayment_security K rpc txHash expectedRecipient expectedAmount network = Inr True"
    unfolding s by simp
  moreover have "expectedAmount \<le> amount \<and> 0 \<le> amount \<and> amount < 2 ^ 256
            \<and> getBlockNumber (rpc (rpcUrl cfg)) = Inr current
            \<longrightarrow> (\<exists>formatted. formatUnits amount (decimals (stablecoin cfg)) = Inr formatted
                  \<and> verifyPayment K rpc txHash expectedRecipient expectedAmount network
                      = Inr \<lparr>verified = True, v_txHash = txHash, v_recipient = recipient,
                             v_amount = formatted, v_blockNumber = blockNumber receipt,
                             v_confirmations = current - blockNumber receipt\<rparr>)"
  proof (intro impI, elim conjE)
    assume a: "expectedAmount \<le> amount" "0 \<le> amount" "amount < 2 ^ 256"
      "getBlockNumber (rpc (rpcUrl cfg)) = Inr current"
    have "(2::int) ^ 256 \<le> 2 ^ 511" by simp
    with a have "- (2 ^ 511) \<le> amount" "amount < 2 ^ 511" by linarith+
    with NETWORKS_decimals [OF assms(1)]
    obtain formatted where "formatUnits amount (decimals (stablecoin cfg)) = Inr formatted"
      using formatUnits_total by blast
    with a show "\<exists>formatted. formatUnits amount (decimals (stablecoin cfg)) = Inr formatted
                  \<and> verifyPayment K rpc txHash expectedRecipient expectedAmount network
                      = Inr \<lparr>verified = True, v_txHash = txHash, v_recipient = recipient,
                             v_amount = formatted, v_blockNumber = blockNumber receipt,
                             v_confirmations = current - blockNumber receipt\<rparr>"
      unfolding v by simp
  qed
  ultimately show ?thesis by blast
qed

lemma verifyPayment_amount_boundary:
  "verifyPayment keccak256_known
       (node (Some (receipt_of [transfer (stablecoin_address (stablecoin baseConfig)) payer
                                  ''742d35cc6634c0532925a3b844bc454e4438f44e'' units_100_000_000])))
       payment_tx merchant 100000000 ''base''
     = Inr \<lparr>verified = True, v_txHash = payment_tx, v_recipient = merchant, v_amount = ''100.0'',
            v_blockNumber = 25000000, v_confirmations = 12\<rparr>
   \<and> verifyPayment_security keccak256_known
       (node (Some (receipt_of [transfer (stablecoin_address (stablecoin baseConfig)) payer
                                  ''742d35cc6634c0532925a3b844bc454e4438f44e'' units_100_000_000])))
       payment_tx merchant 100000000 ''base''
     = Inr True
   \<and> verifyPayment keccak256_known
       (node (Some (receipt_of [transfer (stablecoin_address (stablecoin baseConfig)) payer
                                  ''742d35cc6634c0532925a3b844bc454e4438f44e'' units_99_999_999])))
       payment_tx merchant 100000000 ''base''
     = Inl AmountMismatch
   \<and> verifyPayment_security keccak256_known
       (node (Some (receipt_of [transfer (stablecoin_address (stablecoin baseConfig)) payer
                                  ''742d35cc6634c0532925a3b844bc454e4438f44e'' units_99_999_999])))
       payment_tx merchant 100000000 ''base''
     = Inl AmountMismatch"
proof -
  let ?usdc = "stablecoin_address (stablecoin baseConfig)"
  let ?to = "''742d35cc6634c0532925a3b844bc454e4438f44e''"
  let ?exact = "transfer ?usdc payer ?to units_100_000_000"
  let ?short = "transfer ?usdc payer ?to units_99_999_999"
  have m: "getAddress_0x keccak256_known (drop 26 (''0x000000000000000000000000'' @ ?to)) = Inr merchant"
    by (simp add: merchant_known merchant_def)
  have exact: "getTransactionReceipt (node (Some (receipt_of [?exact])) (rpcUrl baseConfig)) payment_tx
        = Inr (Some (receipt_of [?exact]))"
    "find (isTransfer keccak256_known) (logs (receipt_of [?exact])) = Some ?exact"
    "BigInt (data ?exact) = Inr 100000000"
    by (simp_all add: example_hyps BigInt_units)
  have short: "getTransactionReceipt (node (Some (receipt_of [?short])) (rpcUrl baseConfig)) payment_tx
        = Inr (Some (receipt_of [?short]))"
    "find (isTransfer keccak256_known) (logs (receipt_of [?short])) = Some ?short"
    "BigInt (data ?short) = Inr 99999999"
    by (simp_all add: example_hyps BigInt_units)
  note a = verifyPayment_amount_check [where K = keccak256_known
      and rpc = "node (Some (receipt_of [?exact]))" and txHash = payment_tx
      and expectedRecipient = merchant and expectedAmount = 100000000 and network = "''base''"
      and cfg = baseConfig and receipt = "receipt_of [?exact]" and transferLog = ?exact
      and toTopic = "''0x000000000000000000000000'' @ ?to" and recipient = merchant
      and amount = 100000000 and current = 25000012,
      OF example_hyps(1) exact(1) example_hyps(4) exact(2) example_hyps(9) m refl exact(3)]
  note b = verifyPayment_amount_check [where K = keccak256_known
      and rpc = "node (Some (receipt_of [?short]))" and txHash = payment_tx
      and expectedRecipient = merchant and expectedAmount = 100000000 and network = "''base''"
      and cfg = baseConfig and receipt = "receipt_of [?short]" and transferLog = ?short
      and toTopic = "''0x000000000000000000000000'' @ ?to" and recipient = merchant
      and amount = 99999999 and current = 25000012,
      OF example_hyps(1) short(1) example_hyps(4) short(2) example_hyps(9) m refl short(3)]
  from a have "verifyPayment keccak256_known (node (Some (receipt_of [?exact])))
       payment_tx merchant 100000000 ''base''
     = Inr \<lparr>verified = True, v_txHash = payment_tx, v_recipient = merchant, v_amount = ''100.0'',
            v_blockNumber = 25000000, v_confirmations = 12\<rparr>"
    by (simp add: example_hyps formatUnits_100)
  moreover from a have "verifyPayment_security keccak256_known (node (Some (receipt_of [?exact])))
       payment_tx merchant 100000000 ''base'' = Inr True"
    by simp
  moreover from b have "verifyPayment keccak256_known (node (Some (receipt_of [?short])))
       payment_tx merchant 100000000 ''base'' = Inl AmountMismatch"
    "verifyPayment_security keccak256_known (node (Some (receipt_of [?short])))
       payment_tx merchant 100000000 ''base'' = Inl AmountMismatch"
    by simp_all
  ultimately show ?thesis by simp
qed

subsection \<open>Amounts beyond the fixed-point range, and miscased addresses\<close>


lemma isMixedCase_0x: "isMixedCase (''0x'' @ rest) = isMixedCase rest"
  by (simp add: isMixedCase_def)

lemma isHash32_tail:
  assumes "isHash32 t"
  shows "length (drop 26 t) = 40" and "list_all isHexDigit (drop 26 t)"
proof -
  from assms have l: "length t = 66" and h: "list_all isHexDigit (drop 2 t)"
    by (simp_all add: isHash32_def)
  from l show "length (drop 26 t) = 40" by simp
  have "set (drop 26 t) \<subseteq> set (drop 2 t)"
    by (rule set_drop_subset_set_drop) simp
  with h show "list_all isHexDigit (drop 26 t)"
    by (auto simp: list_all_iff)
qed

lemma getAddress_0x_bad_checksum:
  assumes "isHash32 t" and "isMixedCase (drop 26 t)"
    and "getChecksumAddress K (''0x'' @ drop 26 t) \<noteq> ''0x'' @ drop 26 t"
  shows "getAddress_0x K (drop 26 t) = Inl INVALID_ARGUMENT"
  using assms(2,3) isHash32_tail [OF assms(1)]
  by (simp add: getAddress_0x_def Let_def isMixedCase_0x del: append.simps)

section \<open>The claims\<close>

subsection \<open>The mark-paid update\<close>

text \<open>
  Claim C6, as stated: marking an invoice paid twice with the same invoice id and
  transaction hash yields the same invoice, and the second call returns the existing paid
  record without error. It is false of the update: the second call sets \<^verbatim>\<open>updated_at\<close>
  anew, so the invoice after it is not the invoice after the first call, and it returns
  no record.
\<close>

theorem markPaid_replay_counterexample:
  "snd (markPaid 1704373200 [sent_invoice] invoice_uuid payment_tx)
     = [sent_invoice\<lparr>tx_hash := Some payment_tx, invoice_status := ''paid'',
                     updated_at := 1704373200\<rparr>]
   \<and> snd (markPaid 1704373300 (snd (markPaid 1704373200 [sent_invoice] invoice_uuid payment_tx))
           invoice_uuid payment_tx)
     = [sent_invoice\<lparr>tx_hash := Some payment_tx, invoice_status := ''paid'',
                     updated_at := 1704373300\<rparr>]
   \<and> snd (markPaid 1704373300 (snd (markPaid 1704373200 [sent_invoice] invoice_uuid payment_tx))
           invoice_uuid payment_tx)
     \<noteq> snd (markPaid 1704373200 [sent_invoice] invoice_uuid payment_tx)
   \<and> response_data
         (fst (markPaid 1704373300 (snd (markPaid 1704373200 [sent_invoice] invoice_uuid payment_tx))
                 invoice_uuid payment_tx))
     = None"
proof -
  have "sent_invoice\<lparr>tx_hash := Some payment_tx, invoice_status := ''paid'', updated_at := 1704373300\<rparr>
      \<noteq> sent_invoice\<lparr>tx_hash := Some payment_tx, invoice_status := ''paid'', updated_at := 1704373200\<rparr>"
  proof
    assume "sent_invoice\<lparr>tx_hash := Some payment_tx, invoice_status := ''paid'', updated_at := 1704373300\<rparr>
      = sent_invoice\<lparr>tx_hash := Some payment_tx, invoice_status := ''paid'', updated_at := 1704373200\<rparr>"
    then have "updated_at (sent_invoice\<lparr>tx_hash := Some payment_tx, invoice_status := ''paid'',
          updated_at := 1704373300\<rparr>)
      = updated_at (sent_invoice\<lparr>tx_hash := Some payment_tx, invoice_status := ''paid'',
          updated_at := 1704373200\<rparr>)"
      by (rule arg_cong)
    then show False by simp
  qed
  then show ?thesis
    by (simp add: markPaid_Some [OF uuid_in_examples(1)])
qed

text \<open>
  Claim C6, amended. Marking an invoice paid twice with the same invoice id (each time in
  any spelling of it) and the same transaction hash gives no error on either call; after
  the first call every row of that id is paid with that hash, and the second call changes
  no column of any row but \<^verbatim>\<open>updated_at\<close>, which becomes the time of the second call on the
  rows of that id. Neither call returns a record: the response carries no row. With a text
  that is no id, each call gives the database's error in its response and changes nothing.
\<close>

theorem markPaid_idempotent:
  "(uuid_in invoiceId = Some u \<and> uuid_in invoiceId' = Some u
      \<longrightarrow> snd (markPaid t2 (snd (markPaid t1 invoices invoiceId hash)) invoiceId' hash)
            = map (\<lambda>row. if invoice_id row = u then row\<lparr>updated_at := t2\<rparr> else row)
                  (snd (markPaid t1 invoices invoiceId hash))
        \<and> map (\<lambda>row. row\<lparr>invoice_status := ''paid'', tx_hash := Some hash, updated_at := t1\<rparr>)
             (filter (\<lambda>row. invoice_id row = u) invoices)
            = filter (\<lambda>row. invoice_id row = u) (snd (markPaid t1 invoices invoiceId hash))
        \<and> fst (markPaid t1 invoices invoiceId hash)
            = \<lparr>response_data = None, response_error = None, response_status = 204\<rparr>
        \<and> fst (markPaid t2 (snd (markPaid t1 invoices invoiceId hash)) invoiceId' hash)
            = \<lparr>response_data = None, response_error = None, response_status = 204\<rparr>)
   \<and> (uuid_in invoiceId = None
      \<longrightarrow> markPaid t1 invoices invoiceId hash
            = (\<lparr>response_data = None, response_error = Some ''22P02'', response_status = 400\<rparr>,
               invoices))"
proof (intro conjI impI)
  assume "uuid_in invoiceId = None"
  then show "markPaid t1 invoices invoiceId hash
      = (\<lparr>response_data = None, response_error = Some ''22P02'', response_status = 400\<rparr>, invoices)"
    by (simp add: markPaid_def)
next
  assume a: "uuid_in invoiceId = Some u \<and> uuid_in invoiceId' = Some u"
  then have one: "uuid_in invoiceId = Some u" and two: "uuid_in invoiceId' = Some u" by simp_all
  show "snd (markPaid t2 (snd (markPaid t1 invoices invoiceId hash)) invoiceId' hash)
      = map (\<lambda>row. if invoice_id row = u then row\<lparr>updated_at := t2\<rparr> else row)
            (snd (markPaid t1 invoices invoiceId hash))"
    by (simp add: markPaid_Some [OF one] markPaid_Some [OF two] comp_def)
  show "map (\<lambda>row. row\<lparr>invoice_status := ''paid'', tx_hash := Some hash, updated_at := t1\<rparr>)
          (filter (\<lambda>row. invoice_id row = u) invoices)
      = filter (\<lambda>row. invoice_id row = u) (snd (markPaid t1 invoices invoiceId hash))"
    by (induction invoices) (simp_all add: markPaid_Some [OF one])
  show "fst (markPaid t1 invoices invoiceId hash)
      = \<lparr>response_data = None, response_error = None, response_status = 204\<rparr>"
    by (simp add: markPaid_Some [OF one])
  show "fst (markPaid t2 (snd (markPaid t1 invoices invoiceId hash)) invoiceId' hash)
      = \<lparr>response_data = None, response_error = None, response_status = 204\<rparr>"
    by (simp add: markPaid_Some [OF two])
qed

theorem markPaid_idempotent_witness:
  "uuid_in invoice_uuid = Some (invoice_id sent_invoice)
   \<and> uuid_in invoice_uuid_upper = Some (invoice_id sent_invoice)
   \<and> snd (markPaid 1704373300 (snd (markPaid 1704373200 [sent_invoice] invoice_uuid payment_tx))
           invoice_uuid_upper payment_tx)
     = [sent_invoice\<lparr>tx_hash := Some payment_tx, invoice_status := ''paid'',
                     updated_at := 1704373300\<rparr>]
   \<and> fst (markPaid 1704373300 (snd (markPaid 1704373200 [sent_invoice] invoice_uuid payment_tx))
           invoice_uuid_upper payment_tx)
     = \<lparr>response_data = None, response_error = None, response_status = 204\<rparr>
   \<and> uuid_in ''INV-1704451234567-ABC123XYZ'' = None
   \<and> markPaid 1704373200 [sent_invoice] ''INV-1704451234567-ABC123XYZ'' payment_tx
     = (\<lparr>response_data = None, response_error = Some ''22P02'', response_status = 400\<rparr>,
        [sent_invoice])"
proof -
  note a = markPaid_idempotent [where invoiceId = invoice_uuid and invoiceId' = invoice_uuid_upper
      and u = "invoice_id sent_invoice" and ?t1.0 = 1704373200 and ?t2.0 = 1704373300
      and invoices = "[sent_invoice]" and hash = payment_tx]
  note b = markPaid_idempotent [where invoiceId = "''INV-1704451234567-ABC123XYZ''"
      and ?t1.0 = 1704373200 and invoices = "[sent_invoice]" and hash = payment_tx]
  have none: "uuid_in ''INV-1704451234567-ABC123XYZ'' = None"
    by (simp add: uuid_in_def uuid_loop.simps digitValue_def)
  from a uuid_in_examples(1,2)
  have "snd (markPaid 1704373300 (snd (markPaid 1704373200 [sent_invoice] invoice_uuid payment_tx))
           invoice_uuid_upper payment_tx)
     = map (\<lambda>row. if invoice_id row = invoice_id sent_invoice then row\<lparr>updated_at := 1704373300\<rparr> else row)
          (snd (markPaid 1704373200 [sent_invoice] invoice_uuid payment_tx))"
    and r: "fst (markPaid 1704373300 (snd (markPaid 1704373200 [sent_invoice] invoice_uuid payment_tx))
           invoice_uuid_upper payment_tx)
     = \<lparr>response_data = None, response_error = None, response_status = 204\<rparr>"
    by blast+
  then have "snd (markPaid 1704373300 (snd (markPaid 1704373200 [sent_invoice] invoice_uuid payment_tx))
           invoice_uuid_upper payment_tx)
     = [sent_invoice\<lparr>tx_hash := Some payment_tx, invoice_status := ''paid'',
                     updated_at := 1704373300\<rparr>]"
    by (simp add: markPaid_Some [OF uuid_in_examples(1)])
  moreover from b none
  have "markPaid 1704373200 [sent_invoice] ''INV-1704451234567-ABC123XYZ'' payment_tx
     = (\<lparr>response_data = None, response_error = Some ''22P02'', response_status = 400\<rparr>,
        [sent_invoice])"
    by blast
  ultimately show ?thesis using r none uuid_in_examples(1,2) by blast
qed


text \<open>
  Claim C2, as stated: on a paid invoice, marking it paid with another transaction hash
  fails with AlreadyPaidWithDifferentTx and leaves the stored hash and every other field
  unchanged. It is false of the update: the paid invoice settled by \<open>payment_tx\<close> carries
  \<open>other_tx\<close> afterwards, and the response holds no error.
\<close>

theorem markPaid_overwrites_counterexample:
  "invoice_status paid_invoice = ''paid''
   \<and> tx_hash paid_invoice = Some payment_tx
   \<and> other_tx \<noteq> payment_tx
   \<and> markPaid 1704376800 [paid_invoice] invoice_uuid other_tx
       = (\<lparr>response_data = None, response_error = None, response_status = 204\<rparr>,
          [paid_invoice\<lparr>tx_hash := Some other_tx, updated_at := 1704376800\<rparr>])"
  by (simp add: markPaid_Some [OF uuid_in_examples(1)] uuid_in_examples(3))
     (simp add: paid_invoice_def sent_invoice_def other_tx_def payment_tx_def)

text \<open>
  Claim C2, amended. On a paid invoice, the update with a transaction hash different
  from the stored one raises no error and overwrites the stored hash with the supplied
  one: the row keeps its status \<^verbatim>\<open>paid\<close> and every other column but \<^verbatim>\<open>updated_at\<close>, which
  becomes the time of the call; the rows of other invoices are unchanged.
\<close>

theorem markPaid_overwrites:
  assumes "i < length invoices"
    and "uuid_in invoiceId = Some (invoice_id (invoices ! i))"
    and "invoice_status (invoices ! i) = ''paid''"
    and "tx_hash (invoices ! i) = Some stored"
    and "hash \<noteq> stored"
  shows "snd (markPaid now invoices invoiceId hash) ! i
           = (invoices ! i)\<lparr>tx_hash := Some hash, updated_at := now\<rparr>
       \<and> tx_hash (snd (markPaid now invoices invoiceId hash) ! i) \<noteq> tx_hash (invoices ! i)
       \<and> (\<forall>j < length invoices. invoice_id (invoices ! j) \<noteq> invoice_id (invoices ! i)
              \<longrightarrow> snd (markPaid now invoices invoiceId hash) ! j = invoices ! j)
       \<and> fst (markPaid now invoices invoiceId hash)
           = \<lparr>response_data = None, response_error = None, response_status = 204\<rparr>"
  using assms(1,3,4,5) by (simp add: markPaid_Some [OF assms(2)])

theorem markPaid_overwrites_witness:
  "snd (markPaid 1704376800 [paid_invoice] invoice_uuid other_tx) ! 0
       = paid_invoice\<lparr>tx_hash := Some other_tx, updated_at := 1704376800\<rparr>
   \<and> tx_hash (snd (markPaid 1704376800 [paid_invoice] invoice_uuid other_tx) ! 0)
       \<noteq> tx_hash paid_invoice
   \<and> fst (markPaid 1704376800 [paid_invoice] invoice_uuid other_tx)
       = \<lparr>response_data = None, response_error = None, response_status = 204\<rparr>"
proof -
  have "(0::nat) < length [paid_invoice]"
    and "uuid_in invoice_uuid = Some (invoice_id ([paid_invoice] ! 0))"
    and "invoice_status ([paid_invoice] ! 0) = ''paid''"
    and "tx_hash ([paid_invoice] ! 0) = Some payment_tx"
    and "other_tx \<noteq> payment_tx"
    by (simp_all add: uuid_in_examples)
       (simp_all add: paid_invoice_def sent_invoice_def other_tx_def payment_tx_def)
  from markPaid_overwrites [OF this, of 1704376800] show ?thesis
    unfolding nth_Cons_0 by blast
qed

text \<open>
  Claim C3. An invoice's \<^verbatim>\<open>txHash\<close> and \<^verbatim>\<open>paidAt\<close> are both set or both unset, and a paid
  invoice has both. The update that marks an invoice paid writes \<^verbatim>\<open>tx_hash\<close> and
  \<^verbatim>\<open>status\<close> and never \<^verbatim>\<open>paid_at\<close>: the invoice as created, with neither column set, is
  paid afterwards with a transaction hash and no \<^verbatim>\<open>paid_at\<close>.
\<close>

theorem markPaid_leaves_paid_at_unset:
  "tx_hash sent_invoice = None \<and> paid_at sent_invoice = None
   \<and> snd (markPaid 1704373200 [sent_invoice] invoice_uuid payment_tx)
       = [sent_invoice\<lparr>tx_hash := Some payment_tx, invoice_status := ''paid'',
                       updated_at := 1704373200\<rparr>]
   \<and> map paid_at (snd (markPaid 1704373200 [sent_invoice] invoice_uuid payment_tx)) = [None]
   \<and> map paid_at (snd (markPaid now invoices invoiceId hash)) = map paid_at invoices"
proof -
  have "map paid_at (snd (markPaid now invoices invoiceId hash)) = map paid_at invoices"
    by (cases "uuid_in invoiceId")
       (simp_all add: markPaid_def update_updated_at_column_def comp_def)
  moreover have "tx_hash sent_invoice = None" "paid_at sent_invoice = None"
    by (simp_all add: sent_invoice_def)
  ultimately show ?thesis
    by (simp add: markPaid_Some [OF uuid_in_examples(1)])
qed

subsection \<open>Which log a verdict rests on\<close>

text \<open>
  Claim C1, as stated: \<^verbatim>\<open>verifyPayment\<close> accepts a Transfer log only from the network's
  configured stablecoin contract, and fails with TransferEventNotFound when no log of that
  contract matches. It is false of both functions: a receipt whose only Transfer log was
  emitted by another contract, to the merchant and for the invoiced amount, is accepted.
\<close>

theorem verifyPayment_foreign_emitter_counterexample:
  "address (transfer foreign_token payer ''742d35cc6634c0532925a3b844bc454e4438f44e'' units_100_000_000)
     \<noteq> stablecoin_address (stablecoin baseConfig)
   \<and> verifyPayment keccak256_known
       (node (Some (receipt_of [transfer foreign_token payer ''742d35cc6634c0532925a3b844bc454e4438f44e''
                                  units_100_000_000])))
       payment_tx merchant 100000000 ''base''
     = Inr \<lparr>verified = True, v_txHash = payment_tx, v_recipient = merchant, v_amount = ''100.0'',
            v_blockNumber = 25000000, v_confirmations = 12\<rparr>
   \<and> verifyPayment_security keccak256_known
       (node (Some (receipt_of [transfer foreign_token payer ''742d35cc6634c0532925a3b844bc454e4438f44e''
                                  units_100_000_000])))
       payment_tx merchant 100000000 ''base''
     = Inr True"
  by (simp add: example_accepted) (simp add: transfer_def foreign_token_def baseConfig_def)

text \<open>
  Claim C1, amended. Neither function reads the address of a log: each takes the first
  log whose \<^verbatim>\<open>topics[0]\<close> is the Transfer signature, whatever contract emitted it, so the
  result is the same when the addresses of the logs are replaced by any others. For a
  receipt that was fetched and whose status is not 0, each fails with
  TransferEventNotFound if and only if no log of the receipt carries the Transfer
  signature as \<^verbatim>\<open>topics[0]\<close>.
\<close>

theorem verifyPayment_ignores_emitter:
  "verifyPayment K (withLogs (map (\<lambda>l. l\<lparr>address := emitter l\<rparr>)) rpc)
       txHash expectedRecipient expectedAmount network
     = verifyPayment K rpc txHash expectedRecipient expectedAmount network
   \<and> verifyPayment_security K (withLogs (map (\<lambda>l. l\<lparr>address := emitter l\<rparr>)) rpc)
       txHash expectedRecipient expectedAmount network
     = verifyPayment_security K rpc txHash expectedRecipient expectedAmount network
   \<and> (NETWORKS network = Some cfg
        \<and> getTransactionReceipt (rpc (rpcUrl cfg)) txHash = Inr (Some receipt)
        \<and> status receipt \<noteq> Some 0
      \<longrightarrow> ((verifyPayment K rpc txHash expectedRecipient expectedAmount network
                = Inl TransferEventNotFound)
             = (filter (isTransfer K) (logs receipt) = []))
        \<and> ((verifyPayment_security K rpc txHash expectedRecipient expectedAmount network
                = Inl TransferEventNotFound)
             = (filter (isTransfer K) (logs receipt) = [])))"
proof (intro conjI impI)
  show "verifyPayment K (withLogs (map (\<lambda>l. l\<lparr>address := emitter l\<rparr>)) rpc)
       txHash expectedRecipient expectedAmount network
     = verifyPayment K rpc txHash expectedRecipient expectedAmount network"
    by (rule verifyPayment_withLogs) (rule view_address)
  show "verifyPayment_security K (withLogs (map (\<lambda>l. l\<lparr>address := emitter l\<rparr>)) rpc)
       txHash expectedRecipient expectedAmount network
     = verifyPayment_security K rpc txHash expectedRecipient expectedAmount network"
    by (rule verifyPayment_security_withLogs) (rule view_address)
next
  assume a: "NETWORKS network = Some cfg
        \<and> getTransactionReceipt (rpc (rpcUrl cfg)) txHash = Inr (Some receipt)
        \<and> status receipt \<noteq> Some 0"
  show "(verifyPayment K rpc txHash expectedRecipient expectedAmount network
                = Inl TransferEventNotFound)
             = (filter (isTransfer K) (logs receipt) = [])"
  proof (cases "find (isTransfer K) (logs receipt)")
    case None
    with a show ?thesis
      by (simp add: verifyPayment_def find_None_filter [symmetric])
  next
    case (Some l)
    with a have "verifyPayment K rpc txHash expectedRecipient expectedAmount network
        \<noteq> Inl TransferEventNotFound"
      by (intro verifyPayment_found_kinds(1) [where cfg=cfg and r=receipt and l=l]) simp_all
    moreover from Some have "filter (isTransfer K) (logs receipt) \<noteq> []"
      by (simp add: find_None_filter [symmetric])
    ultimately show ?thesis by simp
  qed
  show "(verifyPayment_security K rpc txHash expectedRecipient expectedAmount network
                = Inl TransferEventNotFound)
             = (filter (isTransfer K) (logs receipt) = [])"
  proof (cases "find (isTransfer K) (logs receipt)")
    case None
    with a show ?thesis
      by (simp add: verifyPayment_security_def find_None_filter [symmetric])
  next
    case (Some l)
    with a have "verifyPayment_security K rpc txHash expectedRecipient expectedAmount network
        \<noteq> Inl TransferEventNotFound"
      by (intro verifyPayment_found_kinds(2) [where cfg=cfg and r=receipt and l=l]) simp_all
    moreover from Some have "filter (isTransfer K) (logs receipt) \<noteq> []"
      by (simp add: find_None_filter [symmetric])
    ultimately show ?thesis by simp
  qed
qed

theorem verifyPayment_ignores_emitter_witness:
  "verifyPayment keccak256_known
       (withLogs (map (\<lambda>l. l\<lparr>address := stablecoin_address (stablecoin baseConfig)\<rparr>))
          (node (Some (receipt_of [transfer foreign_token payer ''742d35cc6634c0532925a3b844bc454e4438f44e''
                                     units_100_000_000]))))
       payment_tx merchant 100000000 ''base''
     = Inr \<lparr>verified = True, v_txHash = payment_tx, v_recipient = merchant, v_amount = ''100.0'',
            v_blockNumber = 25000000, v_confirmations = 12\<rparr>
   \<and> NETWORKS ''base'' = Some baseConfig
   \<and> getTransactionReceipt
         (node (Some (receipt_of [approval foreign_token payer ''742d35cc6634c0532925a3b844bc454e4438f44e''
                                    units_100_000_000])) (rpcUrl baseConfig)) payment_tx
       = Inr (Some (receipt_of [approval foreign_token payer ''742d35cc6634c0532925a3b844bc454e4438f44e''
                                    units_100_000_000]))
   \<and> status (receipt_of [approval foreign_token payer ''742d35cc6634c0532925a3b844bc454e4438f44e''
                                    units_100_000_000]) \<noteq> Some 0
   \<and> verifyPayment keccak256_known
         (node (Some (receipt_of [approval foreign_token payer ''742d35cc6634c0532925a3b844bc454e4438f44e''
                                    units_100_000_000])))
         payment_tx merchant 100000000 ''base'' = Inl TransferEventNotFound
   \<and> filter (isTransfer keccak256_known)
         (logs (receipt_of [approval foreign_token payer ''742d35cc6634c0532925a3b844bc454e4438f44e''
                                    units_100_000_000])) = []"
proof -
  let ?paid = "receipt_of [transfer foreign_token payer ''742d35cc6634c0532925a3b844bc454e4438f44e''
                                     units_100_000_000]"
  let ?none = "receipt_of [approval foreign_token payer ''742d35cc6634c0532925a3b844bc454e4438f44e''
                                    units_100_000_000]"
  note same = verifyPayment_ignores_emitter [where K = keccak256_known
      and emitter = "\<lambda>l. stablecoin_address (stablecoin baseConfig)" and rpc = "node (Some ?paid)"
      and txHash = payment_tx and expectedRecipient = merchant and expectedAmount = 100000000
      and network = "''base''" and cfg = baseConfig and receipt = ?paid]
  note iff = verifyPayment_ignores_emitter [where K = keccak256_known
      and emitter = "\<lambda>l. stablecoin_address (stablecoin baseConfig)" and rpc = "node (Some ?none)"
      and txHash = payment_tx and expectedRecipient = merchant and expectedAmount = 100000000
      and network = "''base''" and cfg = baseConfig and receipt = ?none]
  from same have "verifyPayment keccak256_known
       (withLogs (map (\<lambda>l. l\<lparr>address := stablecoin_address (stablecoin baseConfig)\<rparr>)) (node (Some ?paid)))
       payment_tx merchant 100000000 ''base''
     = Inr \<lparr>verified = True, v_txHash = payment_tx, v_recipient = merchant, v_amount = ''100.0'',
            v_blockNumber = 25000000, v_confirmations = 12\<rparr>"
    by (simp add: example_accepted)
  moreover from iff have "filter (isTransfer keccak256_known) (logs ?none) = []"
    by (simp add: example_hyps example_no_transfer)
  ultimately show ?thesis
    by (simp add: example_hyps example_no_transfer)
qed

subsection \<open>The amount check\<close>


subsection \<open>A missing receipt and a failed transaction\<close>

text \<open>
  Claim C4. \<^verbatim>\<open>verifyPayment\<close> fails with TransactionNotFound exactly when the node has no
  receipt for the hash and with TransactionFailed exactly when the receipt's status is a
  failure, two distinct errors. The function of docs/BLOCKCHAIN.md does so (lemma
  \<open>verifyPayment_receipt_errors\<close>). The function of docs/SECURITY.md tests both in one
  guard and throws \<^verbatim>\<open>Transaction failed\<close> for a hash without a receipt.
\<close>

theorem verifyPayment_security_merges_not_found:
  "getTransactionReceipt (node None (rpcUrl baseConfig)) payment_tx = Inr None
   \<and> verifyPayment_security keccak256_known (node None) payment_tx merchant 100000000 ''base''
       = Inl TransactionFailed
   \<and> verifyPayment keccak256_known (node None) payment_tx merchant 100000000 ''base''
       = Inl TransactionNotFound"
  by (simp add: verifyPayment_def verifyPayment_security_def example_hyps)

subsection \<open>Decoding the selected log\<close>

text \<open>
  Claim C7, as stated: for a log that carries the Transfer signature and has fewer topics
  than the decoding reads, or malformed data, \<^verbatim>\<open>verifyPayment\<close> fails with
  TransferEventNotFound instead of throwing. It is false of both functions: on a log with
  the signature as its only topic, reading \<^verbatim>\<open>topics[2].slice\<close> throws a TypeError.
\<close>

theorem verifyPayment_truncated_log_counterexample:
  "isTransfer keccak256_known (truncated_transfer (stablecoin_address (stablecoin baseConfig)) units_100_000_000)
   \<and> length (topics (truncated_transfer (stablecoin_address (stablecoin baseConfig)) units_100_000_000)) = 1
   \<and> verifyPayment keccak256_known
         (node (Some (receipt_of [truncated_transfer (stablecoin_address (stablecoin baseConfig))
                                    units_100_000_000])))
         payment_tx merchant 100000000 ''base''
       = Inl TypeError
   \<and> verifyPayment_security keccak256_known
         (node (Some (receipt_of [truncated_transfer (stablecoin_address (stablecoin baseConfig))
                                    units_100_000_000])))
         payment_tx merchant 100000000 ''base''
       = Inl TypeError
   \<and> TypeError \<noteq> TransferEventNotFound"
  by (simp add: verifyPayment_def verifyPayment_security_def example_hyps(1-6)
      truncated_transfer_def topic_known elemAt_def)

text \<open>
  Claim C7, amended. The decoding validates neither the number of topics nor the data.
  When the first log with the Transfer signature has fewer than three topics, both
  functions throw a TypeError; when the last 40 digits of its \<^verbatim>\<open>topics[2]\<close> (a 32-byte
  string) mix upper-case and lower-case digits in a casing that is not the checksum
  casing of the address, \<^verbatim>\<open>ethers.getAddress\<close> throws (INVALID_ARGUMENT); when its data is
  no integer literal, \<^verbatim>\<open>BigInt\<close> throws a SyntaxError. Whenever such a log exists, the
  failure is never TransferEventNotFound.
\<close>

theorem verifyPayment_decode_throws:
  assumes "NETWORKS network = Some cfg"
    and "getTransactionReceipt (rpc (rpcUrl cfg)) txHash = Inr (Some receipt)"
    and "status receipt \<noteq> Some 0"
    and "find (isTransfer K) (logs receipt) = Some transferLog"
  shows "(length (topics transferLog) < 3
            \<longrightarrow> verifyPayment K rpc txHash expectedRecipient expectedAmount network = Inl TypeError
              \<and> verifyPayment_security K rpc txHash expectedRecipient expectedAmount network
                  = Inl TypeError)
       \<and> (elemAt (topics transferLog) 2 = Some toTopic
            \<and> isHash32 toTopic
            \<and> isMixedCase (drop 26 toTopic)
            \<and> getChecksumAddress K (''0x'' @ drop 26 toTopic) \<noteq> ''0x'' @ drop 26 toTopic
            \<longrightarrow> verifyPayment K rpc txHash expectedRecipient expectedAmount network
                  = Inl INVALID_ARGUMENT
              \<and> verifyPayment_security K rpc txHash expectedRecipient expectedAmount network
                  = Inl INVALID_ARGUMENT)
       \<and> (elemAt (topics transferLog) 2 = Some toTopic
            \<and> getAddress_0x K (drop 26 toTopic) = Inr recipient
            \<and> BigInt (data transferLog) = Inl SyntaxError
            \<longrightarrow> verifyPayment K rpc txHash expectedRecipient expectedAmount network = Inl SyntaxError
              \<and> verifyPayment_security K rpc txHash expectedRecipient expectedAmount network
                  = Inl SyntaxError)
       \<and> verifyPayment K rpc txHash expectedRecipient expectedAmount network
            \<noteq> Inl TransferEventNotFound
       \<and> verifyPayment_security K rpc txHash expectedRecipient expectedAmount network
            \<noteq> Inl TransferEventNotFound"
proof -
  note v = verifyPayment_found [where n=network and cfg=cfg and rpc=rpc and tx=txHash and r=receipt
      and K=K and l=transferLog, OF assms]
  note s = verifyPayment_security_found [where n=network and cfg=cfg and rpc=rpc and tx=txHash
      and r=receipt and K=K and l=transferLog, OF assms]
  note k = verifyPayment_found_kinds [where n=network and cfg=cfg and rpc=rpc and tx=txHash
      and r=receipt and K=K and l=transferLog and er=expectedRecipient and ea=expectedAmount,
      OF assms]
  have "length (topics transferLog) < 3
      \<longrightarrow> verifyPayment K rpc txHash expectedRecipient expectedAmount network = Inl TypeError
        \<and> verifyPayment_security K rpc txHash expectedRecipient expectedAmount network
            = Inl TypeError"
    unfolding v s by (simp add: elemAt_def)
  moreover have "elemAt (topics transferLog) 2 = Some toTopic
      \<and> isHash32 toTopic
      \<and> isMixedCase (drop 26 toTopic)
      \<and> getChecksumAddress K (''0x'' @ drop 26 toTopic) \<noteq> ''0x'' @ drop 26 toTopic
      \<longrightarrow> verifyPayment K rpc txHash expectedRecipient expectedAmount network = Inl INVALID_ARGUMENT
        \<and> verifyPayment_security K rpc txHash expectedRecipient expectedAmount network
            = Inl INVALID_ARGUMENT"
    unfolding v s by (auto simp: getAddress_0x_bad_checksum)
  moreover have "elemAt (topics transferLog) 2 = Some toTopic
      \<and> getAddress_0x K (drop 26 toTopic) = Inr recipient
      \<and> BigInt (data transferLog) = Inl SyntaxError
      \<longrightarrow> verifyPayment K rpc txHash expectedRecipient expectedAmount network = Inl SyntaxError
        \<and> verifyPayment_security K rpc txHash expectedRecipient expectedAmount network
            = Inl SyntaxError"
    unfolding v s by simp
  ultimately show ?thesis using k(1,2) by blast
qed

theorem verifyPayment_decode_throws_witness:
  "verifyPayment keccak256_known
       (node (Some (receipt_of [truncated_transfer (stablecoin_address (stablecoin baseConfig))
                                  units_100_000_000])))
       payment_tx merchant 100000000 ''base''
     = Inl TypeError
   \<and> verifyPayment_security keccak256_known
       (node (Some (receipt_of [transfer (stablecoin_address (stablecoin baseConfig)) payer
                                  ''742d35cc6634c0532925a3b844bc454e4438f44e'' ''0x''])))
       payment_tx merchant 100000000 ''base''
     = Inl SyntaxError
   \<and> isHash32 (''0x000000000000000000000000'' @ miscased_merchant)
   \<and> verifyPayment keccak256_known
       (node (Some (receipt_of [transfer (stablecoin_address (stablecoin baseConfig)) payer
                                  miscased_merchant units_100_000_000])))
       payment_tx merchant 100000000 ''base''
     = Inl INVALID_ARGUMENT"
proof -
  let ?usdc = "stablecoin_address (stablecoin baseConfig)"
  let ?to = "''742d35cc6634c0532925a3b844bc454e4438f44e''"
  let ?cut = "truncated_transfer ?usdc units_100_000_000"
  let ?nodata = "transfer ?usdc payer ?to ''0x''"
  let ?miscased = "transfer ?usdc payer miscased_merchant units_100_000_000"
  have cut: "getTransactionReceipt (node (Some (receipt_of [?cut])) (rpcUrl baseConfig)) payment_tx
        = Inr (Some (receipt_of [?cut]))"
    "find (isTransfer keccak256_known) (logs (receipt_of [?cut])) = Some ?cut"
    "length (topics ?cut) < 3"
    by (simp_all add: example_hyps)
  have nodata: "getTransactionReceipt (node (Some (receipt_of [?nodata])) (rpcUrl baseConfig)) payment_tx
        = Inr (Some (receipt_of [?nodata]))"
    "find (isTransfer keccak256_known) (logs (receipt_of [?nodata])) = Some ?nodata"
    "elemAt (topics ?nodata) 2 = Some (''0x000000000000000000000000'' @ ?to)"
    "getAddress_0x keccak256_known (drop 26 (''0x000000000000000000000000'' @ ?to)) = Inr merchant"
    "BigInt (data ?nodata) = Inl SyntaxError"
    by (simp_all add: example_hyps merchant_known merchant_def BigInt_def trim_def isWhiteSpace_def
        parseLiteral_def)
  have miscased: "getTransactionReceipt (node (Some (receipt_of [?miscased])) (rpcUrl baseConfig)) payment_tx
        = Inr (Some (receipt_of [?miscased]))"
    "find (isTransfer keccak256_known) (logs (receipt_of [?miscased])) = Some ?miscased"
    "elemAt (topics ?miscased) 2 = Some (''0x000000000000000000000000'' @ miscased_merchant)"
    by (simp_all add: example_hyps)
  have bad: "isHash32 (''0x000000000000000000000000'' @ miscased_merchant)"
    "isMixedCase (drop 26 (''0x000000000000000000000000'' @ miscased_merchant))"
    "getChecksumAddress keccak256_known
        (''0x'' @ drop 26 (''0x000000000000000000000000'' @ miscased_merchant))
      \<noteq> ''0x'' @ drop 26 (''0x000000000000000000000000'' @ miscased_merchant)"
    by (simp_all add: isHash32_def isHexDigit_def isMixedCase_def miscased_merchant_def
        getChecksumAddress_def keccak256_known_def toLowerCase_def toLowerChar_def toUpperChar_def)
  note a = verifyPayment_decode_throws [where K = keccak256_known
      and rpc = "node (Some (receipt_of [?cut]))" and txHash = payment_tx
      and expectedRecipient = merchant and expectedAmount = 100000000 and network = "''base''"
      and cfg = baseConfig and receipt = "receipt_of [?cut]" and transferLog = ?cut,
      OF example_hyps(1) cut(1) example_hyps(4) cut(2)]
  note b = verifyPayment_decode_throws [where K = keccak256_known
      and rpc = "node (Some (receipt_of [?nodata]))" and txHash = payment_tx
      and expectedRecipient = merchant and expectedAmount = 100000000 and network = "''base''"
      and cfg = baseConfig and receipt = "receipt_of [?nodata]" and transferLog = ?nodata
      and toTopic = "''0x000000000000000000000000'' @ ?to" and recipient = merchant,
      OF example_hyps(1) nodata(1) example_hyps(4) nodata(2)]
  note c = verifyPayment_decode_throws [where K = keccak256_known
      and rpc = "node (Some (receipt_of [?miscased]))" and txHash = payment_tx
      and expectedRecipient = merchant and expectedAmount = 100000000 and network = "''base''"
      and cfg = baseConfig and receipt = "receipt_of [?miscased]" and transferLog = ?miscased
      and toTopic = "''0x000000000000000000000000'' @ miscased_merchant",
      OF example_hyps(1) miscased(1) example_hyps(4) miscased(2)]
  from a cut(3) have "verifyPayment keccak256_known (node (Some (receipt_of [?cut])))
       payment_tx merchant 100000000 ''base'' = Inl TypeError"
    by blast
  moreover from b nodata(3,4,5) have "verifyPayment_security keccak256_known
       (node (Some (receipt_of [?nodata]))) payment_tx merchant 100000000 ''base'' = Inl SyntaxError"
    by blast
  moreover from c miscased(3) bad have "verifyPayment keccak256_known
       (node (Some (receipt_of [?miscased]))) payment_tx merchant 100000000 ''base''
         = Inl INVALID_ARGUMENT"
    by blast
  ultimately show ?thesis using bad(1) by blast
qed

subsection \<open>The first Transfer log decides\<close>

text \<open>
  Claim C9. \<^verbatim>\<open>verifyPayment\<close> examines only the first log of the receipt whose \<^verbatim>\<open>topics[0]\<close>
  is the Transfer signature. The result is the same when the log list is replaced by that
  log followed by any other logs (and by the empty list when there is none): the earliest
  such log determines the verdict. In particular, when that log names another recipient,
  or the expected recipient and too small an amount, the payment is rejected whatever
  logs come later, a matching Transfer log included.
\<close>

theorem verifyPayment_first_transfer_only:
  "verifyPayment K
       (withLogs (\<lambda>ls. case find (isTransfer K) ls of None \<Rightarrow> [] | Some l \<Rightarrow> l # others ls) rpc)
       txHash expectedRecipient expectedAmount network
     = verifyPayment K rpc txHash expectedRecipient expectedAmount network
   \<and> verifyPayment_security K
       (withLogs (\<lambda>ls. case find (isTransfer K) ls of None \<Rightarrow> [] | Some l \<Rightarrow> l # others ls) rpc)
       txHash expectedRecipient expectedAmount network
     = verifyPayment_security K rpc txHash expectedRecipient expectedAmount network
   \<and> (NETWORKS network = Some cfg
        \<and> getTransactionReceipt (rpc (rpcUrl cfg)) txHash = Inr (Some receipt)
        \<and> status receipt \<noteq> Some 0
        \<and> logs receipt = before @ first # later
        \<and> filter (isTransfer K) before = []
        \<and> isTransfer K first
        \<and> elemAt (topics first) 2 = Some toTopic
        \<and> getAddress_0x K (drop 26 toTopic) = Inr recipient
        \<and> BigInt (data first) = Inr amount
      \<longrightarrow> (toLowerCase recipient \<noteq> toLowerCase expectedRecipient
            \<longrightarrow> verifyPayment K rpc txHash expectedRecipient expectedAmount network
                  = Inl RecipientMismatch
              \<and> verifyPayment_security K rpc txHash expectedRecipient expectedAmount network
                  = Inl RecipientMismatch)
        \<and> (toLowerCase recipient = toLowerCase expectedRecipient \<and> amount < expectedAmount
            \<longrightarrow> verifyPayment K rpc txHash expectedRecipient expectedAmount network
                  = Inl AmountMismatch
              \<and> verifyPayment_security K rpc txHash expectedRecipient expectedAmount network
                  = Inl AmountMismatch))"
proof (intro conjI impI)
  show "verifyPayment K
       (withLogs (\<lambda>ls. case find (isTransfer K) ls of None \<Rightarrow> [] | Some l \<Rightarrow> l # others ls) rpc)
       txHash expectedRecipient expectedAmount network
     = verifyPayment K rpc txHash expectedRecipient expectedAmount network"
    by (rule verifyPayment_withLogs) (rule view_first)
  show "verifyPayment_security K
       (withLogs (\<lambda>ls. case find (isTransfer K) ls of None \<Rightarrow> [] | Some l \<Rightarrow> l # others ls) rpc)
       txHash expectedRecipient expectedAmount network
     = verifyPayment_security K rpc txHash expectedRecipient expectedAmount network"
    by (rule verifyPayment_security_withLogs) (rule view_first)
next
  assume a: "NETWORKS network = Some cfg
        \<and> getTransactionReceipt (rpc (rpcUrl cfg)) txHash = Inr (Some receipt)
        \<and> status receipt \<noteq> Some 0
        \<and> logs receipt = before @ first # later
        \<and> filter (isTransfer K) before = []
        \<and> isTransfer K first
        \<and> elemAt (topics first) 2 = Some toTopic
        \<and> getAddress_0x K (drop 26 toTopic) = Inr recipient
        \<and> BigInt (data first) = Inr amount"
  then have f: "find (isTransfer K) (logs receipt) = Some first"
    by (simp add: find_append_first)
  from a have found: "NETWORKS network = Some cfg"
    "getTransactionReceipt (rpc (rpcUrl cfg)) txHash = Inr (Some receipt)"
    "status receipt \<noteq> Some 0"
    by simp_all
  note v = verifyPayment_found [where n=network and cfg=cfg and rpc=rpc and tx=txHash and r=receipt
      and K=K and l=first, OF found f]
  note s = verifyPayment_security_found [where n=network and cfg=cfg and rpc=rpc and tx=txHash
      and r=receipt and K=K and l=first, OF found f]
  {
    assume "toLowerCase recipient \<noteq> toLowerCase expectedRecipient"
    with a show "verifyPayment K rpc txHash expectedRecipient expectedAmount network
        = Inl RecipientMismatch"
      unfolding v by simp
  next
    assume "toLowerCase recipient \<noteq> toLowerCase expectedRecipient"
    with a show "verifyPayment_security K rpc txHash expectedRecipient expectedAmount network
        = Inl RecipientMismatch"
      unfolding s by simp
  next
    assume "toLowerCase recipient = toLowerCase expectedRecipient \<and> amount < expectedAmount"
    with a show "verifyPayment K rpc txHash expectedRecipient expectedAmount network
        = Inl AmountMismatch"
      unfolding v by simp
  next
    assume "toLowerCase recipient = toLowerCase expectedRecipient \<and> amount < expectedAmount"
    with a show "verifyPayment_security K rpc txHash expectedRecipient expectedAmount network
        = Inl AmountMismatch"
      unfolding s by simp
  }
qed

theorem verifyPayment_first_transfer_only_witness:
  "verifyPayment keccak256_known
       (node (Some (receipt_of
          [transfer (stablecoin_address (stablecoin baseConfig)) payer
             ''9e2b8f4a1c3d5e6f7081929394a5b6c7d8e9f0a1'' units_100_000_000,
           transfer (stablecoin_address (stablecoin baseConfig)) payer
             ''742d35cc6634c0532925a3b844bc454e4438f44e'' units_100_000_000])))
       payment_tx merchant 100000000 ''base''
     = Inl RecipientMismatch
   \<and> verifyPayment_security keccak256_known
       (node (Some (receipt_of
          [transfer (stablecoin_address (stablecoin baseConfig)) payer
             ''9e2b8f4a1c3d5e6f7081929394a5b6c7d8e9f0a1'' units_100_000_000,
           transfer (stablecoin_address (stablecoin baseConfig)) payer
             ''742d35cc6634c0532925a3b844bc454e4438f44e'' units_100_000_000])))
       payment_tx merchant 100000000 ''base''
     = Inl RecipientMismatch
   \<and> verifyPayment_security keccak256_known
       (node (Some (receipt_of
          [transfer (stablecoin_address (stablecoin baseConfig)) payer
             ''742d35cc6634c0532925a3b844bc454e4438f44e'' units_100_000_000])))
       payment_tx merchant 100000000 ''base''
     = Inr True"
proof -
  let ?usdc = "stablecoin_address (stablecoin baseConfig)"
  let ?first = "transfer ?usdc payer ''9e2b8f4a1c3d5e6f7081929394a5b6c7d8e9f0a1'' units_100_000_000"
  let ?later = "transfer ?usdc payer ''742d35cc6634c0532925a3b844bc454e4438f44e'' units_100_000_000"
  let ?receipt = "receipt_of [?first, ?later]"
  have h: "NETWORKS ''base'' = Some baseConfig
      \<and> getTransactionReceipt (node (Some ?receipt) (rpcUrl baseConfig)) payment_tx = Inr (Some ?receipt)
      \<and> status ?receipt \<noteq> Some 0
      \<and> logs ?receipt = [] @ ?first # [?later]
      \<and> filter (isTransfer keccak256_known) [] = []
      \<and> isTransfer keccak256_known ?first
      \<and> elemAt (topics ?first) 2
          = Some (''0x000000000000000000000000'' @ ''9e2b8f4a1c3d5e6f7081929394a5b6c7d8e9f0a1'')
      \<and> getAddress_0x keccak256_known
            (drop 26 (''0x000000000000000000000000'' @ ''9e2b8f4a1c3d5e6f7081929394a5b6c7d8e9f0a1''))
          = Inr stranger
      \<and> BigInt (data ?first) = Inr 100000000"
    by (simp add: example_hyps stranger_known stranger_def BigInt_units)
  have ne: "toLowerCase stranger \<noteq> toLowerCase merchant"
    by (simp add: stranger_def merchant_def toLowerCase_def toLowerChar_def)
  note t = verifyPayment_first_transfer_only [where K = keccak256_known
      and rpc = "node (Some ?receipt)" and txHash = payment_tx
      and expectedRecipient = merchant and expectedAmount = 100000000 and network = "''base''"
      and cfg = baseConfig and receipt = ?receipt and before = "[]" and first = ?first
      and later = "[?later]"
      and toTopic = "''0x000000000000000000000000'' @ ''9e2b8f4a1c3d5e6f7081929394a5b6c7d8e9f0a1''"
      and recipient = stranger and amount = 100000000]
  from t h ne have "verifyPayment keccak256_known (node (Some ?receipt))
       payment_tx merchant 100000000 ''base'' = Inl RecipientMismatch
    \<and> verifyPayment_security keccak256_known (node (Some ?receipt))
       payment_tx merchant 100000000 ''base'' = Inl RecipientMismatch"
    by blast
  then show ?thesis by (simp add: example_accepted)
qed

subsection \<open>The sender is not read\<close>

text \<open>
  Claim C10. The verdict does not depend on the sender of the transfer: for two receipts
  that differ only in \<^verbatim>\<open>topics[1]\<close> of their logs, each function returns the same result.
\<close>

theorem verifyPayment_ignores_sender:
  "verifyPayment K (withLogs (map (\<lambda>l. l\<lparr>topics := (topics l)[1 := sender l]\<rparr>)) rpc)
       txHash expectedRecipient expectedAmount network
     = verifyPayment K rpc txHash expectedRecipient expectedAmount network
   \<and> verifyPayment_security K (withLogs (map (\<lambda>l. l\<lparr>topics := (topics l)[1 := sender l]\<rparr>)) rpc)
       txHash expectedRecipient expectedAmount network
     = verifyPayment_security K rpc txHash expectedRecipient expectedAmount network"
  by (intro conjI verifyPayment_withLogs verifyPayment_security_withLogs view_sender)

theorem verifyPayment_ignores_sender_witness:
  "verifyPayment keccak256_known
       (withLogs (map (\<lambda>l. l\<lparr>topics := (topics l)
            [1 := ''0x000000000000000000000000'' @ ''9e2b8f4a1c3d5e6f7081929394a5b6c7d8e9f0a1'']\<rparr>))
          (node (Some (receipt_of [transfer (stablecoin_address (stablecoin baseConfig)) payer
                                     ''742d35cc6634c0532925a3b844bc454e4438f44e'' units_100_000_000]))))
       payment_tx merchant 100000000 ''base''
     = Inr \<lparr>verified = True, v_txHash = payment_tx, v_recipient = merchant, v_amount = ''100.0'',
            v_blockNumber = 25000000, v_confirmations = 12\<rparr>
   \<and> verifyPayment_security keccak256_known
       (withLogs (map (\<lambda>l. l\<lparr>topics := (topics l)
            [1 := ''0x000000000000000000000000'' @ ''9e2b8f4a1c3d5e6f7081929394a5b6c7d8e9f0a1'']\<rparr>))
          (node (Some (receipt_of [transfer (stablecoin_address (stablecoin baseConfig)) payer
                                     ''742d35cc6634c0532925a3b844bc454e4438f44e'' units_100_000_000]))))
       payment_tx merchant 100000000 ''base''
     = Inr True"
  using verifyPayment_ignores_sender [where K = keccak256_known
      and sender = "\<lambda>l. ''0x000000000000000000000000'' @ ''9e2b8f4a1c3d5e6f7081929394a5b6c7d8e9f0a1''"
      and rpc = "node (Some (receipt_of [transfer (stablecoin_address (stablecoin baseConfig)) payer
                                     ''742d35cc6634c0532925a3b844bc454e4438f44e'' units_100_000_000]))"
      and txHash = payment_tx and expectedRecipient = merchant and expectedAmount = 100000000
      and network = "''base''"]
  by (simp only: example_accepted) 

subsection \<open>Converting the invoice amount\<close>

text \<open>
  Claim C8. The conversion from a USD amount to smallest units is exact integer
  arithmetic with the token's fixed number of decimals, 6 for USDC on base and 18 for cUSD
  on celo: \<^verbatim>\<open>parseAmount\<close> turns the decimal string of the amount into the integer
  \<open>amount * 10 ^ decimals\<close> (a whole part \<open>w\<close> and a fraction \<open>f\<close> of at most \<open>decimals\<close>
  digits give \<open>w * 10 ^ decimals + f * 10 ^ (decimals - length f)\<close>), and an invoice of 100
  USD on base is exactly 100000000 units. The results are unbounded integers, as are the
  two sides of every amount comparison of \<^verbatim>\<open>verifyPayment\<close>.
\<close>

theorem parseAmount_exact:
  "parseAmount ''100'' ''USDC'' = Inr 100000000
   \<and> parseAmount ''100'' ''cUSD'' = Inr 100000000000000000000
   \<and> map_option (\<lambda>c. (symbol (stablecoin c), decimals (stablecoin c))) (NETWORKS ''base'')
       = Some (''USDC'', 6)
   \<and> map_option (\<lambda>c. (symbol (stablecoin c), decimals (stablecoin c))) (NETWORKS ''celo'')
       = Some (''cUSD'', 18)
   \<and> TOKEN_DECIMALS ''USDC'' = Some 6
   \<and> TOKEN_DECIMALS ''cUSD'' = Some 18
   \<and> (whole \<noteq> [] \<and> parseDigits 10 0 whole = Some w \<and> parseDigits 10 0 fraction = Some f
        \<and> TOKEN_DECIMALS tokenSymbol = Some d \<and> length fraction \<le> d
        \<and> int w * 10 ^ d + int f * 10 ^ (d - length fraction) < 2 ^ 511
      \<longrightarrow> parseAmount (whole @ ''.'' @ fraction) tokenSymbol
            = Inr (int w * 10 ^ d + int f * 10 ^ (d - length fraction))
        \<and> (fraction = [] \<longrightarrow> parseAmount whole tokenSymbol = Inr (int w * 10 ^ d)))"
proof -
  have d100: "parseDigits 10 0 ''100'' = Some 100" "parseDigits 10 0 [] = Some 0"
    by (simp_all add: digitValue_def)
  have "int 100 * 10 ^ 6 + int 0 * 10 ^ (6 - length ([]::string)) < 2 ^ 511"
    "int 100 * 10 ^ 18 + int 0 * 10 ^ (18 - length ([]::string)) < 2 ^ 511"
    by simp_all
  then have "parseUnits ''100'' (Some 6) = Inr (int 100 * 10 ^ 6)"
    "parseUnits ''100'' (Some 18) = Inr (int 100 * 10 ^ 18)"
    by (intro parseUnits_decimal(2) [where fraction = "[]" and f = 0] d100; simp)+
  then have "parseAmount ''100'' ''USDC'' = Inr 100000000"
    "parseAmount ''100'' ''cUSD'' = Inr 100000000000000000000"
    by (simp_all add: parseAmount_def TOKEN_DECIMALS_def)
  moreover have "map_option (\<lambda>c. (symbol (stablecoin c), decimals (stablecoin c))) (NETWORKS ''base'')
       = Some (''USDC'', 6)"
    "map_option (\<lambda>c. (symbol (stablecoin c), decimals (stablecoin c))) (NETWORKS ''celo'')
       = Some (''cUSD'', 18)"
    "TOKEN_DECIMALS ''USDC'' = Some 6" "TOKEN_DECIMALS ''cUSD'' = Some 18"
    by (simp_all add: NETWORKS_def baseConfig_def celoConfig_def TOKEN_DECIMALS_def)
  moreover have "whole \<noteq> [] \<and> parseDigits 10 0 whole = Some w \<and> parseDigits 10 0 fraction = Some f
        \<and> TOKEN_DECIMALS tokenSymbol = Some d \<and> length fraction \<le> d
        \<and> int w * 10 ^ d + int f * 10 ^ (d - length fraction) < 2 ^ 511
      \<longrightarrow> parseAmount (whole @ ''.'' @ fraction) tokenSymbol
            = Inr (int w * 10 ^ d + int f * 10 ^ (d - length fraction))
        \<and> (fraction = [] \<longrightarrow> parseAmount whole tokenSymbol = Inr (int w * 10 ^ d))"
  proof (intro impI, elim conjE)
    assume a: "whole \<noteq> []" "parseDigits 10 0 whole = Some w" "parseDigits 10 0 fraction = Some f"
      "length fraction \<le> d"
      "int w * 10 ^ d + int f * 10 ^ (d - length fraction) < 2 ^ 511"
      and t: "TOKEN_DECIMALS tokenSymbol = Some d"
    from t have "d \<le> 80" by (rule TOKEN_DECIMALS_bound)
    note p = parseUnits_decimal [OF a(1-4) this a(5)]
    from p t show "parseAmount (whole @ ''.'' @ fraction) tokenSymbol
            = Inr (int w * 10 ^ d + int f * 10 ^ (d - length fraction))
        \<and> (fraction = [] \<longrightarrow> parseAmount whole tokenSymbol = Inr (int w * 10 ^ d))"
      by (simp add: parseAmount_def)
  qed
  ultimately show ?thesis by blast
qed

theorem parseAmount_exact_witness:
  "parseAmount ''12.5'' ''USDC'' = Inr 12500000
   \<and> parseAmount ''0.000001'' ''USDC'' = Inr 1
   \<and> parseAmount ''100'' ''USDC'' = Inr 100000000"
proof -
  have h: "''12'' \<noteq> [] \<and> parseDigits 10 0 ''12'' = Some 12 \<and> parseDigits 10 0 ''5'' = Some 5
      \<and> TOKEN_DECIMALS ''USDC'' = Some 6 \<and> length ''5'' \<le> (6::nat)
      \<and> int 12 * 10 ^ 6 + int 5 * 10 ^ (6 - length ''5'') < 2 ^ 511"
    "''0'' \<noteq> [] \<and> parseDigits 10 0 ''0'' = Some 0 \<and> parseDigits 10 0 ''000001'' = Some 1
      \<and> TOKEN_DECIMALS ''USDC'' = Some 6 \<and> length ''000001'' \<le> (6::nat)
      \<and> int 0 * 10 ^ 6 + int 1 * 10 ^ (6 - length ''000001'') < 2 ^ 511"
    by (simp_all add: digitValue_def TOKEN_DECIMALS_def)
  note a = parseAmount_exact [where whole = "''12''" and fraction = "''5''" and w = 12 and f = 5
      and tokenSymbol = "''USDC''" and d = 6]
  note b = parseAmount_exact [where whole = "''0''" and fraction = "''000001''" and w = 0 and f = 1
      and tokenSymbol = "''USDC''" and d = 6]
  from a h(1) have "parseAmount (''12'' @ ''.'' @ ''5'') ''USDC''
      = Inr (int 12 * 10 ^ 6 + int 5 * 10 ^ (6 - length ''5''))"
    by blast
  moreover from b h(2) have "parseAmount (''0'' @ ''.'' @ ''000001'') ''USDC''
      = Inr (int 0 * 10 ^ 6 + int 1 * 10 ^ (6 - length ''000001''))"
    by blast
  moreover from a have "parseAmount ''100'' ''USDC'' = Inr 100000000" by blast
  ultimately show ?thesis by simp
qed

end
